theory Spec2Isabelle
  imports Main "HOL-Library.AList" "HOL-Library.Multiset"
begin

section \<open>The decompiler of cmd/ll2go: data model\<close>

text \<open>
  The development follows \<^verbatim>\<open>src/cmd/ll2go/main.go\<close>. Go strings are HOL strings, Go
  slices are lists, a \<^verbatim>\<open>panic\<close> and an \<^verbatim>\<open>error\<close> return are values of the type
  \<open>error\<close>, and the mutable map \<^verbatim>\<open>d.blocks\<close> is an association list with distinct keys
  that is passed along explicitly.
\<close>

subsection \<open>Failures\<close>

text \<open>
  \<open>Panic\<close> is a Go run-time panic (it aborts the process), \<open>Errorf\<close> is the value built
  by \<^verbatim>\<open>errors.Errorf\<close> with its formatted message. \<^verbatim>\<open>errors.WithStack\<close> only attaches
  a stack trace and is the identity here. The remaining constructors are the failures the
  specification names for the parts of the program that are not in \<^verbatim>\<open>main.go\<close>.
\<close>

datatype error =
    Panic string
  | Errorf string
  | UnresolvedReference string
  | UnsupportedConstruct string
  | UnsupportedType

subsection \<open>LLVM IR values\<close>

text \<open>
  The constants of package \<^verbatim>\<open>constant\<close> that the specification talks about: integer,
  float, null pointer, array and struct. A boolean is an integer constant of width 1.
  \<open>ConstInt\<close> (\<^verbatim>\<open>*constant.Int\<close>) carries the bit width of its type and the value
  \<^verbatim>\<open>X\<close> (a \<^verbatim>\<open>*big.Int\<close>). \<^verbatim>\<open>d.value\<close> tells \<^verbatim>\<open>*constant.Int\<close> from every other
  constant and looks no further.
\<close>

datatype ir_constant =
    ConstInt nat int
  | ConstFloat string
  | ConstNull
  | ConstArray "ir_constant list"
  | ConstStruct "ir_constant list"

text \<open>
  A \<^verbatim>\<open>value.Value\<close>: the named values \<^verbatim>\<open>*ir.Global\<close> and \<^verbatim>\<open>*ir.Function\<close>, every
  other named value (parameter, instruction result, basic block), a constant, and any
  other value, kept with the name of its Go type.
\<close>

datatype val =
    Global string
  | Function string
  | Local string
  | Const ir_constant
  | OtherValue string

subsection \<open>Go syntax trees\<close>

datatype token = token_ASSIGN | token_INT

datatype ident = NewIdent string

fun ident_Name :: "ident \<Rightarrow> string" where
  "ident_Name (NewIdent name) = name"

datatype expr =
    Ident ident
  | BasicLit token string
  | OpExpr string "expr list"

datatype stmt =
    AssignStmt "expr list" token "expr list"
  | BlockStmt "stmt list"
  | IfStmt expr "stmt list" "stmt list option"
  | ForStmt expr "stmt list"
  | PostLoopStmt "stmt list" expr
  | ReturnStmt "expr list"
  | UnreachableStmt
  | EmptyStmt

section \<open>Identifiers and values\<close>

text \<open>\<^verbatim>\<open>func (d *decompiler) global(name string) *ast.Ident\<close>\<close>

definition global :: "string \<Rightarrow> ident" where
  "global name = NewIdent name"

text \<open>\<^verbatim>\<open>func (d *decompiler) local(name string) *ast.Ident\<close>\<close>

definition local :: "string \<Rightarrow> ident" where
  "local name = NewIdent (''_'' @ name)"

text \<open>The decimal text of a \<^verbatim>\<open>big.Int\<close>, as \<^verbatim>\<open>v.X.String()\<close> gives it.\<close>

fun digits :: "nat \<Rightarrow> string" where
  "digits n = (if n < 10 then [''0123456789'' ! n]
               else digits (n div 10) @ [''0123456789'' ! (n mod 10)])"

declare digits.simps [simp del]

definition big_String :: "int \<Rightarrow> string" where
  "big_String x = (if x < 0 then CHR ''-'' # digits (nat (- x)) else digits (nat x))"

text \<open>The text \<^verbatim>\<open>%T\<close> prints for a constant.\<close>

fun constant_T :: "ir_constant \<Rightarrow> string" where
  "constant_T (ConstInt w x) = ''*constant.Int''"
| "constant_T (ConstFloat s) = ''*constant.Float''"
| "constant_T ConstNull = ''*constant.Null''"
| "constant_T (ConstArray cs) = ''*constant.Array''"
| "constant_T (ConstStruct cs) = ''*constant.Struct''"

text \<open>
  \<^verbatim>\<open>func (d *decompiler) value(v value.Value) ast.Expr\<close>, here \<open>value_expr\<close>
  (\<open>value\<close> is a command of Isabelle). The type switch tries
  \<^verbatim>\<open>value.Named\<close> first, then \<^verbatim>\<open>constant.Constant\<close>; both default branches panic.
\<close>

fun value_expr :: "val \<Rightarrow> error + expr" where
  "value_expr (Global name) = Inr (Ident (global name))"
| "value_expr (Function name) = Inr (Ident (global name))"
| "value_expr (Local name) = Inr (Ident (local name))"
| "value_expr (Const (ConstInt w x)) = Inr (BasicLit token_INT (big_String x))"
| "value_expr (Const c) =
     Inl (Panic (''support for constant value '' @ constant_T c @ '' not yet implemented''))"
| "value_expr (OtherValue t) =
     Inl (Panic (''support for value '' @ t @ '' not yet implemented''))"

text \<open>The keywords of Go.\<close>

definition go_keywords :: "string list" where
  "go_keywords =
    [''break'', ''default'', ''func'', ''interface'', ''select'',
     ''case'', ''defer'', ''go'', ''map'', ''struct'',
     ''chan'', ''else'', ''goto'', ''package'', ''switch'',
     ''const'', ''fallthrough'', ''if'', ''range'', ''type'',
     ''continue'', ''for'', ''import'', ''return'', ''var'']"

section \<open>Functions, blocks and primitives\<close>

subsection \<open>LLVM IR\<close>

datatype ir_type =
    IntType nat
  | PointerType ir_type
  | FuncType ir_type "ir_type list"
  | StructType "ir_type list"
  | ArrayType nat ir_type
  | VoidType
  | OtherType string

text \<open>\<^verbatim>\<open>ir.Incoming\<close>: the incoming value \<^verbatim>\<open>X\<close> and the label \<^verbatim>\<open>Pred.Name\<close>.\<close>

datatype incoming = Incoming val string

text \<open>
  Of the instructions only \<^verbatim>\<open>*ir.InstPhi\<close> (result name, incoming values) is looked
  at in \<^verbatim>\<open>main.go\<close>; every other instruction is kept as result name, operation and
  operands.
\<close>

datatype instruction =
    InstPhi string "incoming list"
  | InstOther string string "val list"

datatype terminator =
    TermRet "val option"
  | TermBr string
  | TermCondBr val string string
  | TermUnreachable

text \<open>\<^verbatim>\<open>ir.BasicBlock\<close>; \<open>Term\<close> is an interface value, \<open>None\<close> when it is nil.\<close>

record BasicBlock =
  Name :: string
  Insts :: "instruction list"
  Term :: "terminator option"

text \<open>\<^verbatim>\<open>ir.Function\<close>: name, signature (return and parameter types), blocks.\<close>

record Function =
  func_Name :: string
  Sig_Ret :: ir_type
  Sig_Params :: "ir_type list"
  Blocks :: "BasicBlock list"

subsection \<open>The conceptual basic block\<close>

text \<open>
  \<^verbatim>\<open>type basicBlock struct { *ir.BasicBlock; stmts []ast.Stmt; out []ast.Stmt }\<close>:
  the embedded block's fields, the Go statements, and the outgoing values for PHI
  instructions.
\<close>

record basicBlock = BasicBlock +
  stmts :: "stmt list"
  out :: "stmt list"

text \<open>
  \<^verbatim>\<open>d.blocks map[string]*basicBlock\<close>. Every pointer in the map is reached through the
  map only, so the map holds the blocks themselves. \<^verbatim>\<open>d.blocks[k] = b\<close> is
  \<open>AList.update k b\<close>, \<^verbatim>\<open>delete(d.blocks, k)\<close> is \<open>AList.delete k\<close>, a lookup is
  \<open>map_of\<close>, and \<^verbatim>\<open>len(d.blocks)\<close> is \<open>length\<close> (the keys stay distinct).
\<close>

type_synonym registry = "(string \<times> basicBlock) list"

record decompiler =
  blocks :: registry

definition newDecompiler :: decompiler where
  "newDecompiler = \<lparr>blocks = []\<rparr>"

subsection \<open>Go declarations\<close>

datatype go_type =
    TypeIdent string
  | StarExpr go_type
  | GoFuncType "go_type list" "go_type list"
  | GoStructType "go_type list"
  | GoArrayType nat go_type

text \<open>The text \<^verbatim>\<open>%T\<close> prints for a type expression, as a failed type assertion reports it.\<close>

fun go_type_T :: "go_type \<Rightarrow> string" where
  "go_type_T (TypeIdent s) = ''*ast.Ident''"
| "go_type_T (StarExpr t) = ''*ast.StarExpr''"
| "go_type_T (GoFuncType ps rs) = ''*ast.FuncType''"
| "go_type_T (GoStructType ts) = ''*ast.StructType''"
| "go_type_T (GoArrayType n t) = ''*ast.ArrayType''"

text \<open>\<^verbatim>\<open>ast.FuncDecl\<close>: \<open>decl_Body\<close> is \<open>None\<close> for a declaration without a body.\<close>

record FuncDecl =
  decl_Name :: ident
  decl_Type :: go_type
  decl_Body :: "stmt list option"

subsection \<open>Control flow primitives\<close>

text \<open>
  Modelled from the spec: the declaration of \<^verbatim>\<open>primitive.Primitive\<close> (package
  \<^verbatim>\<open>cfa/primitive\<close>) is not among the sources. A primitive has a kind and its member
  block labels, kept in a keyed collection \<open>Nodes\<close>: the key of a member is its position
  in the declared member order (entry or header first), the order of the list is the
  order in which the collection happens to be stored, which is the order
  \<^verbatim>\<open>range prim.Nodes\<close> yields the labels in.
\<close>

datatype prim_kind =
    Sequence
  | Conditional
  | TwoArmedConditional
  | PreTestLoop
  | PostTestLoop
  | Compound

record primitive =
  Prim :: prim_kind
  Nodes :: "(nat \<times> string) list"

subsection \<open>The methods that are not in main.go\<close>

text \<open>
  \<^verbatim>\<open>d.goType\<close>, \<^verbatim>\<open>d.insts\<close>, \<^verbatim>\<open>d.term\<close> and \<^verbatim>\<open>d.prim\<close> are called in
  \<^verbatim>\<open>main.go\<close> and defined elsewhere. The functions of \<^verbatim>\<open>main.go\<close> take them as
  parameters; each may fail. \<^verbatim>\<open>d.prim\<close> reads \<^verbatim>\<open>d.blocks\<close>.
\<close>

record helpers =
  goType :: "ir_type \<Rightarrow> error + go_type"
  insts :: "instruction list \<Rightarrow> error + stmt list"
  term_stmt :: "terminator option \<Rightarrow> error + stmt"
  prim :: "registry \<Rightarrow> primitive \<Rightarrow> error + basicBlock"

section \<open>funcDecl\<close>

text \<open>
  \<^verbatim>\<open>func (d *decompiler) stmts(block *basicBlock) []ast.Stmt\<close>: the statements of the
  instructions (by \<^verbatim>\<open>d.insts\<close>, the first argument), then the recorded statements,
  then the outgoing PHI values.
\<close>

definition d_stmts ::
  "(instruction list \<Rightarrow> error + stmt list) \<Rightarrow> basicBlock \<Rightarrow> error + stmt list" where
  "d_stmts d_insts block =
     (case d_insts (Insts block) of
        Inl e \<Rightarrow> Inl e
      | Inr ss \<Rightarrow> Inr (ss @ stmts block @ out block))"

text \<open>Lines 94 to 97: the basic block mapping is reset and filled.\<close>

fun seed :: "BasicBlock list \<Rightarrow> registry \<Rightarrow> registry" where
  "seed [] reg = reg"
| "seed (block # bs) reg =
     seed bs (AList.update (Name block)
       \<lparr>Name = Name block, Insts = Insts block, Term = Term block, stmts = [], out = []\<rparr> reg)"

text \<open>
  Lines 108 to 116, the loop over \<^verbatim>\<open>phi.Incs\<close>. The assignment is built first (and
  \<^verbatim>\<open>d.value\<close> may panic); then \<^verbatim>\<open>pred.out\<close> is written, which panics when
  \<^verbatim>\<open>d.blocks\<close> has no block of that label and \<^verbatim>\<open>pred\<close> is nil. Every loop returns
  the failure, if any, with the mapping as it is at that moment.
\<close>

definition phi_assign :: "string \<Rightarrow> expr \<Rightarrow> stmt" where
  "phi_assign name rhs = AssignStmt [Ident (local name)] token_ASSIGN [rhs]"

fun phi_incs :: "string \<Rightarrow> incoming list \<Rightarrow> registry \<Rightarrow> error option \<times> registry" where
  "phi_incs name [] reg = (None, reg)"
| "phi_incs name (Incoming x pred # incs) reg =
     (case value_expr x of
        Inl e \<Rightarrow> (Some e, reg)
      | Inr rhs \<Rightarrow>
         (case map_of reg pred of
            None \<Rightarrow> (Some (Panic ''runtime error: invalid memory address or nil pointer dereference''), reg)
          | Some b \<Rightarrow>
              phi_incs name incs
                (AList.update pred (b\<lparr>out := out b @ [phi_assign name rhs]\<rparr>) reg)))"

text \<open>Lines 101 to 117, the loop over \<^verbatim>\<open>block.Insts\<close>.\<close>

fun phi_insts :: "instruction list \<Rightarrow> registry \<Rightarrow> error option \<times> registry" where
  "phi_insts [] reg = (None, reg)"
| "phi_insts (InstPhi name incs # is) reg =
     (case phi_incs name incs reg of
        (Some e, reg') \<Rightarrow> (Some e, reg')
      | (None, reg') \<Rightarrow> phi_insts is reg')"
| "phi_insts (InstOther name opr xs # is) reg = phi_insts is reg"

text \<open>Lines 100 to 118, the loop over \<^verbatim>\<open>f.Blocks\<close>.\<close>

fun phi_blocks :: "BasicBlock list \<Rightarrow> registry \<Rightarrow> error option \<times> registry" where
  "phi_blocks [] reg = (None, reg)"
| "phi_blocks (block # bs) reg =
     (case phi_insts (Insts block) reg of
        (Some e, reg') \<Rightarrow> (Some e, reg')
      | (None, reg') \<Rightarrow> phi_blocks bs reg')"

text \<open>
  Lines 121 to 132, the loop over the primitives: \<^verbatim>\<open>d.prim\<close>, then the deletion of
  every label \<^verbatim>\<open>range prim.Nodes\<close> yields, then the insertion of the new block.
\<close>

fun recover :: "helpers \<Rightarrow> primitive list \<Rightarrow> registry \<Rightarrow> error option \<times> registry" where
  "recover h [] reg = (None, reg)"
| "recover h (p # ps) reg =
     (case prim h reg p of
        Inl e \<Rightarrow> (Some e, reg)
      | Inr block \<Rightarrow>
          recover h ps
            (AList.update (Name block) block (fold AList.delete (map snd (Nodes p)) reg)))"

text \<open>The message of line 137.\<close>

definition recovery_failed :: "nat \<Rightarrow> error" where
  "recovery_failed n =
     Errorf (''control flow recovery failed; unable to reduce function into a single basic block; expected 1 basic block, got '' @ digits n)"

text \<open>
  \<^verbatim>\<open>func (d *decompiler) funcDecl(f *ir.Function, prims []*primitive.Primitive)
  (*ast.FuncDecl, error)\<close>. The result comes with the decompiler as the call leaves it.
  \<^verbatim>\<open>f.String()\<close> only names the unnamed locals; the names are taken as given.
  \<^verbatim>\<open>typ.(*ast.FuncType)\<close> panics on any other type expression.
\<close>

definition funcDecl ::
  "helpers \<Rightarrow> decompiler \<Rightarrow> Function \<Rightarrow> primitive list \<Rightarrow> (error + FuncDecl) \<times> decompiler" where
  "funcDecl h d f prims =
     (case goType h (FuncType (Sig_Ret f) (Sig_Params f)) of
        Inl e \<Rightarrow> (Inl e, d)
      | Inr (GoFuncType ps rs) \<Rightarrow>
          (let fn = \<lparr>decl_Name = global (func_Name f), decl_Type = GoFuncType ps rs,
                      decl_Body = None\<rparr>
           in if length (Blocks f) < 1 then (Inr fn, d)
              else
                (case phi_blocks (Blocks f) (seed (Blocks f) []) of
                   (Some e, reg1) \<Rightarrow> (Inl e, \<lparr>blocks = reg1\<rparr>)
                 | (None, reg1) \<Rightarrow>
                     (case recover h prims reg1 of
                        (Some e, reg2) \<Rightarrow> (Inl e, \<lparr>blocks = reg2\<rparr>)
                      | (None, reg2) \<Rightarrow>
                          (case reg2 of
                             [(label, block)] \<Rightarrow>
                               (case term_stmt h (Term block) of
                                  Inl e \<Rightarrow> (Inl e, \<lparr>blocks = reg2\<rparr>)
                                | Inr s \<Rightarrow>
                                    (Inr (fn\<lparr>decl_Body := Some (stmts block @ [s])\<rparr>),
                                     \<lparr>blocks = [(label, block\<lparr>stmts := stmts block @ [s]\<rparr>)]\<rparr>))
                           | _ \<Rightarrow> (Inl (recovery_failed (length reg2)), \<lparr>blocks = reg2\<rparr>)))))
      | Inr t \<Rightarrow>
          (Inl (Panic (''interface conversion: ast.Expr is '' @ go_type_T t
                       @ '', not *ast.FuncType'')), d))"

text \<open>
  The loop of \<^verbatim>\<open>ll2go\<close> over \<^verbatim>\<open>module.Funcs\<close>. \<open>parsePrims\<close> stands for the files of
  primitives, by function name. The result is \<^verbatim>\<open>file.Decls\<close> (each declaration is
  printed as it is appended) and the error returned, if any.
\<close>

fun ll2go_funcs ::
  "helpers \<Rightarrow> (string \<Rightarrow> error + primitive list) \<Rightarrow> Function list \<Rightarrow> decompiler \<Rightarrow>
   FuncDecl list \<Rightarrow> FuncDecl list \<times> error option" where
  "ll2go_funcs h parsePrims [] d decls = (decls, None)"
| "ll2go_funcs h parsePrims (f # fs) d decls =
     (case parsePrims (func_Name f) of
        Inl e \<Rightarrow> (decls, Some e)
      | Inr prims \<Rightarrow>
          (case funcDecl h d f prims of
             (Inl e, d') \<Rightarrow> (decls, Some e)
           | (Inr fn, d') \<Rightarrow> ll2go_funcs h parsePrims fs d' (decls @ [fn])))"

definition ll2go ::
  "helpers \<Rightarrow> (string \<Rightarrow> error + primitive list) \<Rightarrow> Function list \<Rightarrow>
   FuncDecl list \<times> error option" where
  "ll2go h parsePrims funcs = ll2go_funcs h parsePrims funcs newDecompiler []"

section \<open>The translators and the region synthesis, from the specification\<close>

text \<open>
  The translators below stand for the methods that are not in \<^verbatim>\<open>main.go\<close>. They are
  used to run \<open>funcDecl\<close> on concrete inputs; the properties of \<open>funcDecl\<close> are stated
  for any \<open>helpers\<close>. \<open>collect\<close> runs a list of fallible steps: the first failure, or
  all the results.
\<close>

fun collect :: "(error + 'a) list \<Rightarrow> error + 'a list" where
  "collect [] = Inr []"
| "collect (Inl e # rs) = Inl e"
| "collect (Inr x # rs) = (case collect rs of Inl e \<Rightarrow> Inl e | Inr xs \<Rightarrow> Inr (x # xs))"

text \<open>
  Modelled from the spec: \<^verbatim>\<open>d.goType\<close> is not among the sources. Integer types map
  by bit width, pointer, function, struct and array types map to the corresponding type
  expressions, keeping the order of parameters, fields and elements; a function of return
  type void has no result; any other type fails with UnsupportedType.
\<close>

fun goType_spec :: "ir_type \<Rightarrow> error + go_type" where
  "goType_spec (IntType n) = Inr (TypeIdent (''int'' @ digits n))"
| "goType_spec (PointerType t) =
     (case goType_spec t of Inl e \<Rightarrow> Inl e | Inr g \<Rightarrow> Inr (StarExpr g))"
| "goType_spec (FuncType r ps) =
     (case collect (map goType_spec ps) of
        Inl e \<Rightarrow> Inl e
      | Inr gs \<Rightarrow>
          (if r = VoidType then Inr (GoFuncType gs [])
           else (case goType_spec r of Inl e \<Rightarrow> Inl e | Inr g \<Rightarrow> Inr (GoFuncType gs [g]))))"
| "goType_spec (StructType ts) =
     (case collect (map goType_spec ts) of Inl e \<Rightarrow> Inl e | Inr gs \<Rightarrow> Inr (GoStructType gs))"
| "goType_spec (ArrayType n t) =
     (case goType_spec t of Inl e \<Rightarrow> Inl e | Inr g \<Rightarrow> Inr (GoArrayType n g))"
| "goType_spec VoidType = Inl UnsupportedType"
| "goType_spec (OtherType s) = Inl UnsupportedType"

text \<open>
  Modelled from the spec: \<^verbatim>\<open>d.insts\<close> is not among the sources. Each instruction
  that is not a phi becomes one assignment of an expression over its translated operands
  to its binding, in instruction order; a phi instruction contributes no statement.
\<close>

fun inst_spec :: "instruction \<Rightarrow> error + stmt list" where
  "inst_spec (InstPhi name incs) = Inr []"
| "inst_spec (InstOther name opr xs) =
     (case collect (map value_expr xs) of
        Inl e \<Rightarrow> Inl e
      | Inr es \<Rightarrow> Inr [AssignStmt [Ident (local name)] token_ASSIGN [OpExpr opr es]])"

text \<open>
  Modelled from the spec: \<^verbatim>\<open>d.insts\<close>, the statements of a list of instructions, in
  instruction order.
\<close>

definition insts_spec :: "instruction list \<Rightarrow> error + stmt list" where
  "insts_spec is =
     (case collect (map inst_spec is) of Inl e \<Rightarrow> Inl e | Inr sss \<Rightarrow> Inr (concat sss))"

text \<open>
  Modelled from the spec: \<^verbatim>\<open>d.term\<close> is not among the sources. The terminator of
  the surviving block becomes a return with its translated operand or an unreachable
  marker; a synthesized block has no terminator and falls through; a branch that no
  primitive has absorbed is an unsupported construct.
\<close>

fun term_spec :: "terminator option \<Rightarrow> error + stmt" where
  "term_spec None = Inr EmptyStmt"
| "term_spec (Some (TermRet None)) = Inr (ReturnStmt [])"
| "term_spec (Some (TermRet (Some x))) =
     (case value_expr x of Inl e \<Rightarrow> Inl e | Inr r \<Rightarrow> Inr (ReturnStmt [r]))"
| "term_spec (Some TermUnreachable) = Inr UnreachableStmt"
| "term_spec (Some (TermBr l)) = Inl (UnsupportedConstruct ''br'')"
| "term_spec (Some (TermCondBr c l1 l2)) = Inl (UnsupportedConstruct ''br'')"

text \<open>
  Modelled from the spec: the declared member order of a primitive, read from the keyed
  collection: the labels stored under the positions \<open>0\<close>, \<open>1\<close>, ... ; \<open>None\<close> when
  a position has no label.
\<close>

definition members :: "primitive \<Rightarrow> string list option" where
  "members p = those (map (map_of (Nodes p)) [0 ..< length (Nodes p)])"

text \<open>
  Modelled from the spec: step 1 of the region reducer, part of \<^verbatim>\<open>d.prim\<close>. Every
  member label is resolved against the registry; a missing one fails with
  UnresolvedReference.
\<close>

fun resolve :: "registry \<Rightarrow> string list \<Rightarrow> error + basicBlock list" where
  "resolve reg [] = Inr []"
| "resolve reg (l # ls) =
     (case map_of reg l of
        None \<Rightarrow> Inl (UnresolvedReference l)
      | Some b \<Rightarrow> (case resolve reg ls of Inl e \<Rightarrow> Inl e | Inr bs \<Rightarrow> Inr (b # bs)))"

text \<open>
  Modelled from the spec: the condition of a primitive, part of \<^verbatim>\<open>d.prim\<close>. It is
  the translated test of the terminator of the entry or header member.
\<close>

fun condition :: "basicBlock \<Rightarrow> error + expr" where
  "condition b =
     (case Term b of
        Some (TermCondBr c l1 l2) \<Rightarrow> value_expr c
      | _ \<Rightarrow> Inl (UnsupportedConstruct ''condition''))"

text \<open>
  Modelled from the spec: steps 2 and 3 of the region reducer, part of \<^verbatim>\<open>d.prim\<close>.
  The statement sequence of each member is \<open>d_stmts\<close> (the second argument); one
  structured statement is synthesized by kind, from the members in declared order. A
  sequence concatenates the sequences of its members; a conditional takes the condition
  of its entry and the sequence of its body; a two-armed conditional takes two bodies;
  a pre-test loop takes the condition of its header and the sequence of its body; a
  post-test loop runs its body and then tests the condition of the body's terminator; a
  compound wraps the one statement of its single member.
\<close>

fun synthesize :: "prim_kind \<Rightarrow> (error + stmt list) list \<Rightarrow> basicBlock list \<Rightarrow> error + stmt" where
  "synthesize Sequence sss (b # bs) =
     (case collect sss of Inl e \<Rightarrow> Inl e | Inr xs \<Rightarrow> Inr (BlockStmt (concat xs)))"
| "synthesize Conditional [ss0, ss1] [entry, body] =
     (case condition entry of
        Inl e \<Rightarrow> Inl e
      | Inr c \<Rightarrow> (case ss1 of Inl e \<Rightarrow> Inl e | Inr s1 \<Rightarrow> Inr (IfStmt c s1 None)))"
| "synthesize TwoArmedConditional [ss0, ss1, ss2] [entry, body_true, body_false] =
     (case condition entry of
        Inl e \<Rightarrow> Inl e
      | Inr c \<Rightarrow>
          (case ss1 of
             Inl e \<Rightarrow> Inl e
           | Inr s1 \<Rightarrow> (case ss2 of Inl e \<Rightarrow> Inl e | Inr s2 \<Rightarrow> Inr (IfStmt c s1 (Some s2)))))"
| "synthesize PreTestLoop [ss0, ss1] [header, body] =
     (case condition header of
        Inl e \<Rightarrow> Inl e
      | Inr c \<Rightarrow> (case ss1 of Inl e \<Rightarrow> Inl e | Inr s1 \<Rightarrow> Inr (ForStmt c s1)))"
| "synthesize PostTestLoop [ss0] [body] =
     (case condition body of
        Inl e \<Rightarrow> Inl e
      | Inr c \<Rightarrow> (case ss0 of Inl e \<Rightarrow> Inl e | Inr s0 \<Rightarrow> Inr (PostLoopStmt s0 c)))"
| "synthesize Compound [ss0] [member] =
     (case stmts member of
        [s] \<Rightarrow> Inr s
      | _ \<Rightarrow> Inl (UnsupportedConstruct ''compound''))"
| "synthesize kind sss bs = Inl (UnsupportedConstruct ''primitive'')"

text \<open>
  Modelled from the spec: step 5 of the region reducer allocates a fresh label, part of
  \<^verbatim>\<open>d.prim\<close>. The label is one longer than every label of the registry.
\<close>

definition fresh_label :: "registry \<Rightarrow> string" where
  "fresh_label reg = replicate (Suc (foldr (\<lambda>kv n. max (length (fst kv)) n) reg 0)) (CHR ''r'')"

text \<open>
  Modelled from the spec: \<^verbatim>\<open>d.prim\<close> is not among the sources. It resolves the
  members (a missing label fails with UnresolvedReference), synthesizes the statement of
  the primitive, and returns a new block under a fresh label whose statement buffer is
  that one statement and which has no terminator. The deletion of the members and the
  insertion of the new block are in \<open>recover\<close>.
\<close>

definition prim_spec :: "registry \<Rightarrow> primitive \<Rightarrow> error + basicBlock" where
  "prim_spec reg p =
     (case members p of
        None \<Rightarrow> Inl (UnsupportedConstruct ''primitive'')
      | Some ls \<Rightarrow>
          (case resolve reg ls of
             Inl e \<Rightarrow> Inl e
           | Inr bs \<Rightarrow>
               (case synthesize (Prim p)
                       (map (d_stmts insts_spec) bs) bs of
                  Inl e \<Rightarrow> Inl e
                | Inr s \<Rightarrow>
                    Inr \<lparr>Name = fresh_label reg, Insts = [], Term = None,
                         stmts = [s], out = []\<rparr>)))"

text \<open>Modelled from the spec: the four methods together.\<close>

definition spec_helpers :: helpers where
  "spec_helpers =
     \<lparr>goType = goType_spec, insts = insts_spec, term_stmt = term_spec, prim = prim_spec\<rparr>"

section \<open>Notions the properties are stated with\<close>

subsection \<open>The assignments of an edge\<close>

fun inc_X :: "incoming \<Rightarrow> val" where
  "inc_X (Incoming x pred) = x"

fun inc_Pred :: "incoming \<Rightarrow> string" where
  "inc_Pred (Incoming x pred) = pred"

text \<open>
  The incoming values on the edge from the block labelled \<open>l\<close>: the destination and the
  value of every pair whose predecessor is \<open>l\<close>, over the blocks, their phi instructions
  and the pairs of each, all in declaration order.
\<close>

fun inst_edge :: "string \<Rightarrow> instruction \<Rightarrow> (string \<times> val) list" where
  "inst_edge l (InstPhi name incs) =
     map (\<lambda>inc. (name, inc_X inc)) (filter (\<lambda>inc. inc_Pred inc = l) incs)"
| "inst_edge l (InstOther name opr xs) = []"

definition phi_edge :: "string \<Rightarrow> BasicBlock list \<Rightarrow> (string \<times> val) list" where
  "phi_edge l bs = concat (map (\<lambda>block. concat (map (inst_edge l) (Insts block))) bs)"

text \<open>The plain assignment of one incoming value to its destination.\<close>

definition edge_assign :: "string \<times> val \<Rightarrow> error + stmt" where
  "edge_assign nx =
     (case value_expr (snd nx) of Inl e \<Rightarrow> Inl e | Inr rhs \<Rightarrow> Inr (phi_assign (fst nx) rhs))"

subsection \<open>Running assignments\<close>

text \<open>
  The meaning of a list of Go assignments of literals and identifiers to identifiers:
  they run in order, each reading the variables as the earlier ones left them.
\<close>

definition digits_value :: "string \<Rightarrow> nat" where
  "digits_value s = foldl (\<lambda>n c. 10 * n + (of_char c - 48)) 0 s"

fun literal_value :: "string \<Rightarrow> int" where
  "literal_value [] = 0"
| "literal_value (c # cs) =
     (if c = CHR ''-'' then - int (digits_value cs) else int (digits_value (c # cs)))"

fun eval_expr :: "(string \<Rightarrow> int) \<Rightarrow> expr \<Rightarrow> int option" where
  "eval_expr env (Ident (NewIdent x)) = Some (env x)"
| "eval_expr env (BasicLit token_INT s) = Some (literal_value s)"
| "eval_expr env e = None"

fun exec_assigns :: "stmt list \<Rightarrow> (string \<Rightarrow> int) \<Rightarrow> (string \<Rightarrow> int) option" where
  "exec_assigns [] env = Some env"
| "exec_assigns (AssignStmt [Ident (NewIdent x)] token_ASSIGN [e] # ss) env =
     (case eval_expr env e of None \<Rightarrow> None | Some v \<Rightarrow> exec_assigns ss (env(x := v)))"
| "exec_assigns (s # ss) env = None"

subsection \<open>Predecessors\<close>

fun successors :: "terminator option \<Rightarrow> string list" where
  "successors (Some (TermBr l)) = [l]"
| "successors (Some (TermCondBr c l1 l2)) = [l1, l2]"
| "successors t = []"

definition predecessors :: "BasicBlock list \<Rightarrow> string \<Rightarrow> string list" where
  "predecessors bs l = map Name (filter (\<lambda>b. l \<in> set (successors (Term b))) bs)"

text \<open>
  Every incoming pair of every phi instruction names a block of the function and has a
  value that \<open>value_expr\<close> translates.
\<close>

fun inst_resolvable :: "string list \<Rightarrow> instruction \<Rightarrow> bool" where
  "inst_resolvable ls (InstPhi name incs) =
     list_all (\<lambda>inc. inc_Pred inc \<in> set ls \<and> \<not> isl (value_expr (inc_X inc))) incs"
| "inst_resolvable ls (InstOther name opr xs) = True"

definition phis_resolvable :: "BasicBlock list \<Rightarrow> bool" where
  "phis_resolvable bs = list_all (\<lambda>b. list_all (inst_resolvable (map Name bs)) (Insts b)) bs"

subsection \<open>Storage order of a primitive\<close>

text \<open>
  \<open>q\<close> is \<open>p\<close> with its members stored in another order: the same kind and the same
  members under the same keys. The keys of a Go map are distinct.
\<close>

definition storage_permutation :: "primitive \<Rightarrow> primitive \<Rightarrow> bool" where
  "storage_permutation p q =
     (Prim q = Prim p \<and> distinct (map fst (Nodes p)) \<and> mset (Nodes q) = mset (Nodes p))"

text \<open>A \<^verbatim>\<open>d.prim\<close> that finds the members by key gives the same block for both.\<close>

definition reads_by_key :: "(registry \<Rightarrow> primitive \<Rightarrow> error + basicBlock) \<Rightarrow> bool" where
  "reads_by_key d_prim = (\<forall>reg p q. storage_permutation p q \<longrightarrow> d_prim reg q = d_prim reg p)"

text \<open>The labels a list of primitives names.\<close>

definition named_labels :: "primitive list \<Rightarrow> string set" where
  "named_labels ps = (\<Union>p \<in> set ps. snd ` set (Nodes p))"

section \<open>Example inputs\<close>

text \<open>
  Two phi instructions of block \<open>target\<close> receive values on the edge from \<open>A\<close>, and the
  second reads the destination of the first:
  \<^verbatim>\<open>d1 = phi [1, A], [b1, B]\<close> and \<^verbatim>\<open>d2 = phi [d1, A], [b2, B]\<close>.
\<close>

definition swap_blocks :: "BasicBlock list" where
  "swap_blocks =
     [\<lparr>Name = ''A'', Insts = [], Term = Some (TermBr ''target'')\<rparr>,
      \<lparr>Name = ''B'', Insts = [], Term = Some (TermBr ''target'')\<rparr>,
      \<lparr>Name = ''target'',
       Insts = [InstPhi ''d1'' [Incoming (Const (ConstInt 32 1)) ''A'',
                               Incoming (Local ''b1'') ''B''],
                InstPhi ''d2'' [Incoming (Local ''d1'') ''A'',
                               Incoming (Local ''b2'') ''B'']],
       Term = Some (TermRet (Some (Local ''d2'')))\<rparr>]"

definition swap_func :: Function where
  "swap_func =
     \<lparr>func_Name = ''swap'', Sig_Ret = IntType 32, Sig_Params = [], Blocks = swap_blocks\<rparr>"

text \<open>A function of two blocks, \<open>entry\<close> branching to \<open>exit\<close>.\<close>

definition two_block_func :: Function where
  "two_block_func =
     \<lparr>func_Name = ''g'', Sig_Ret = VoidType, Sig_Params = [],
      Blocks = [\<lparr>Name = ''entry'', Insts = [], Term = Some (TermBr ''exit'')\<rparr>,
                \<lparr>Name = ''exit'', Insts = [], Term = Some (TermRet None)\<rparr>]\<rparr>"

text \<open>
  The only predecessor of \<open>target\<close> is \<open>entry\<close>, and its phi instruction has an incoming
  value from \<open>other\<close> as well.
\<close>

definition mismatch_blocks :: "BasicBlock list" where
  "mismatch_blocks =
     [\<lparr>Name = ''entry'', Insts = [], Term = Some (TermBr ''target'')\<rparr>,
      \<lparr>Name = ''other'', Insts = [], Term = Some (TermRet None)\<rparr>,
      \<lparr>Name = ''target'',
       Insts = [InstPhi ''x'' [Incoming (Const (ConstInt 32 1)) ''entry'',
                              Incoming (Const (ConstInt 32 2)) ''other'']],
       Term = Some (TermRet (Some (Local ''x'')))\<rparr>]"

definition mismatch_func :: Function where
  "mismatch_func =
     \<lparr>func_Name = ''h'', Sig_Ret = IntType 32, Sig_Params = [], Blocks = mismatch_blocks\<rparr>"

definition mismatch_prims :: "primitive list" where
  "mismatch_prims =
     [\<lparr>Prim = Sequence, Nodes = [(0, ''entry''), (1, ''target''), (2, ''other'')]\<rparr>]"

text \<open>A chain of four blocks, and two sequences that split its labels between them.\<close>

definition chain_func :: Function where
  "chain_func =
     \<lparr>func_Name = ''c'', Sig_Ret = VoidType, Sig_Params = [],
      Blocks = [\<lparr>Name = ''a'', Insts = [], Term = Some (TermBr ''b'')\<rparr>,
                \<lparr>Name = ''b'', Insts = [], Term = Some (TermBr ''c'')\<rparr>,
                \<lparr>Name = ''c'', Insts = [], Term = Some (TermBr ''d'')\<rparr>,
                \<lparr>Name = ''d'', Insts = [], Term = Some (TermRet None)\<rparr>]\<rparr>"

definition chain_prims :: "primitive list" where
  "chain_prims =
     [\<lparr>Prim = Sequence, Nodes = [(0, ''a''), (1, ''b'')]\<rparr>,
      \<lparr>Prim = Sequence, Nodes = [(0, ''c''), (1, ''d'')]\<rparr>]"

text \<open>A function of one block: \<^verbatim>\<open>x = add a, 1\<close> and \<^verbatim>\<open>ret x\<close>.\<close>

definition single_func :: Function where
  "single_func =
     \<lparr>func_Name = ''f'', Sig_Ret = IntType 32, Sig_Params = [IntType 32],
      Blocks = [\<lparr>Name = ''entry'',
                 Insts = [InstOther ''x'' ''add'' [Local ''a'', Const (ConstInt 32 1)]],
                 Term = Some (TermRet (Some (Local ''x'')))\<rparr>]\<rparr>"

text \<open>A declaration without blocks.\<close>

definition decl_func :: Function where
  "decl_func =
     \<lparr>func_Name = ''puts'', Sig_Ret = IntType 32, Sig_Params = [PointerType (IntType 8)],
      Blocks = []\<rparr>"

section \<open>Decimal text\<close>

text \<open>The text of \<open>big_String\<close> reads back as the value it was printed from.\<close>

lemma digit_chars:
  "list_all (\<lambda>n. of_char (''0123456789'' ! n) - 48 = (n :: nat) \<and> ''0123456789'' ! n \<noteq> CHR ''-'')
     [0 ..< 10]"
  by code_simp

lemma digit_char_value:
  "n < 10 \<Longrightarrow> of_char (''0123456789'' ! n) - 48 = (n :: nat)"
  using digit_chars by (simp add: list_all_iff)

lemma digit_char_not_minus:
  "n < 10 \<Longrightarrow> ''0123456789'' ! n \<noteq> CHR ''-''"
  using digit_chars by (simp add: list_all_iff)

lemma digits_value_snoc:
  "digits_value (cs @ [c]) = 10 * digits_value cs + (of_char c - 48)"
  by (simp add: digits_value_def)

lemma digits_value_digits: "digits_value (digits n) = n"
proof (induction n rule: digits.induct)
  case (1 n)
  show ?case
  proof (cases "n < 10")
    case True
    then show ?thesis
      by (subst digits.simps) (simp add: digits_value_def digit_char_value)
  next
    case False
    with 1 have "digits_value (digits (n div 10)) = n div 10" by simp
    with False show ?thesis
      by (subst digits.simps) (simp add: digits_value_snoc digit_char_value)
  qed
qed

lemma digits_head: "\<exists>c cs. digits n = c # cs \<and> c \<noteq> CHR ''-''"
proof (induction n rule: digits.induct)
  case (1 n)
  show ?case
  proof (cases "n < 10")
    case True
    then show ?thesis
      by (subst digits.simps) (simp add: digit_char_not_minus)
  next
    case False
    with 1 obtain c cs where "digits (n div 10) = c # cs" "c \<noteq> CHR ''-''" by blast
    with False show ?thesis
      by (subst digits.simps) simp
  qed
qed

lemma literal_value_big_String: "literal_value (big_String x) = x"
proof (cases "x < 0")
  case True
  then show ?thesis by (simp add: big_String_def digits_value_digits)
next
  case False
  obtain c cs where d: "digits (nat x) = c # cs" "c \<noteq> CHR ''-''"
    using digits_head by blast
  have "digits_value (digits (nat x)) = nat x" by (rule digits_value_digits)
  with d False show ?thesis by (simp add: big_String_def)
qed

lemma big_String_inj: "big_String x = big_String y \<longleftrightarrow> x = y"
  by (metis literal_value_big_String)

section \<open>The phi loop\<close>

text \<open>The loops over the phi instructions leave the labels of the mapping as they are.\<close>

lemma update_present_keys:
  "map_of reg k = Some b \<Longrightarrow> map fst (AList.update k v reg) = map fst reg"
  by (simp add: AList.update_keys) (metis domI dom_map_of_conv_image_fst set_map)

lemma phi_incs_keys:
  "phi_incs name incs reg = (r, reg') \<Longrightarrow> map fst reg' = map fst reg"
proof (induction incs arbitrary: reg)
  case Nil
  then show ?case by simp
next
  case (Cons inc incs)
  obtain x pred where inc: "inc = Incoming x pred" by (cases inc)
  show ?case
  proof (cases "value_expr x")
    case (Inl e)
    with Cons.prems inc show ?thesis by simp
  next
    case (Inr rhs)
    show ?thesis
    proof (cases "map_of reg pred")
      case None
      with Cons.prems inc Inr show ?thesis by simp
    next
      case (Some b)
      with Cons.prems inc Inr
      have "phi_incs name incs (AList.update pred (b\<lparr>out := out b @ [phi_assign name rhs]\<rparr>) reg) = (r, reg')"
        by simp
      from Cons.IH [OF this] Some show ?thesis
        by (simp add: update_present_keys)
    qed
  qed
qed

lemma phi_insts_keys:
  "phi_insts is reg = (r, reg') \<Longrightarrow> map fst reg' = map fst reg"
proof (induction "is" reg rule: phi_insts.induct)
  case (1 reg)
  then show ?case by simp
next
  case (2 name incs "is" reg)
  show ?case
  proof (cases "phi_incs name incs reg")
    case (Pair r1 reg1)
    note k1 = phi_incs_keys [OF Pair]
    show ?thesis
    proof (cases r1)
      case None
      with 2 Pair k1 show ?thesis by simp
    next
      case (Some e)
      with 2 Pair k1 show ?thesis by simp
    qed
  qed
next
  case (3 name opr xs "is" reg)
  then show ?case by simp
qed

lemma phi_blocks_keys:
  "phi_blocks bs reg = (r, reg') \<Longrightarrow> map fst reg' = map fst reg"
proof (induction bs arbitrary: reg)
  case Nil
  then show ?case by simp
next
  case (Cons block bs)
  show ?case
  proof (cases "phi_insts (Insts block) reg")
    case (Pair r1 reg1)
    note k1 = phi_insts_keys [OF Pair]
    show ?thesis
    proof (cases r1)
      case None
      with Cons Pair k1 show ?thesis by simp
    next
      case (Some e)
      with Cons Pair k1 show ?thesis by simp
    qed
  qed
qed

text \<open>
  What the loops do to the block of a label \<open>l\<close>: they append to its \<open>out\<close> the
  assignments of the edge from \<open>l\<close>, and change nothing else.
\<close>

lemma phi_incs_out:
  assumes "phi_incs name incs reg = (None, reg')" and "map_of reg l = Some b"
  shows "\<exists>new. map_of reg' l = Some (b\<lparr>out := out b @ new\<rparr>)
           \<and> map Inr new = map edge_assign (inst_edge l (InstPhi name incs))"
  using assms
proof (induction incs arbitrary: reg b)
  case Nil
  then show ?case by simp
next
  case (Cons inc incs)
  obtain x pred where inc: "inc = Incoming x pred" by (cases inc)
  from Cons.prems(1) inc obtain rhs where rhs: "value_expr x = Inr rhs"
    by (cases "value_expr x") auto
  from Cons.prems(1) inc rhs obtain bp where bp: "map_of reg pred = Some bp"
    by (cases "map_of reg pred") auto
  let ?reg1 = "AList.update pred (bp\<lparr>out := out bp @ [phi_assign name rhs]\<rparr>) reg"
  from Cons.prems(1) inc rhs bp have run: "phi_incs name incs ?reg1 = (None, reg')"
    by simp
  show ?case
  proof (cases "pred = l")
    case True
    with bp Cons.prems(2) have "bp = b" by simp
    with True have "map_of ?reg1 l = Some (b\<lparr>out := out b @ [phi_assign name rhs]\<rparr>)"
      by (simp add: AList.update_conv')
    from Cons.IH [OF run this] obtain new where
      new: "map_of reg' l = Some (b\<lparr>out := out b @ [phi_assign name rhs] @ new\<rparr>)"
        "map Inr new = map edge_assign (inst_edge l (InstPhi name incs))"
      by auto
    have "map Inr (phi_assign name rhs # new) =
            map edge_assign (inst_edge l (InstPhi name (inc # incs)))"
      using new(2) True inc rhs by (simp add: edge_assign_def)
    with new(1) show ?thesis by (metis append_Cons append_Nil)
  next
    case False
    with Cons.prems(2) have "map_of ?reg1 l = Some b"
      by (simp add: AList.update_conv')
    from Cons.IH [OF run this] False inc show ?thesis by simp
  qed
qed

lemma phi_insts_out:
  assumes "phi_insts is reg = (None, reg')" and "map_of reg l = Some b"
  shows "\<exists>new. map_of reg' l = Some (b\<lparr>out := out b @ new\<rparr>)
           \<and> map Inr new = map edge_assign (concat (map (inst_edge l) is))"
  using assms
proof (induction "is" reg arbitrary: b rule: phi_insts.induct)
  case (1 reg)
  then show ?case by simp
next
  case (2 name incs "is" reg)
  from "2.prems"(1) obtain reg1 where
    r1: "phi_incs name incs reg = (None, reg1)" and r2: "phi_insts is reg1 = (None, reg')"
    by (auto split: prod.splits option.splits)
  from phi_incs_out [OF r1 "2.prems"(2)] obtain new1 where
    n1: "map_of reg1 l = Some (b\<lparr>out := out b @ new1\<rparr>)"
        "map Inr new1 = map edge_assign (inst_edge l (InstPhi name incs))"
    by blast
  from "2.IH" [OF r1 [symmetric] refl r2 n1(1)] obtain new2 where
    n2: "map_of reg' l = Some (b\<lparr>out := out b @ new1 @ new2\<rparr>)"
        "map Inr new2 = map edge_assign (concat (map (inst_edge l) is))"
    by auto
  have "map Inr (new1 @ new2) = map edge_assign (concat (map (inst_edge l) (InstPhi name incs # is)))"
    using n1(2) n2(2) by simp
  with n2(1) show ?case by blast
next
  case (3 name opr xs "is" reg)
  then show ?case by simp
qed

lemma phi_blocks_out:
  assumes "phi_blocks bs reg = (None, reg')" and "map_of reg l = Some b"
  shows "\<exists>new. map_of reg' l = Some (b\<lparr>out := out b @ new\<rparr>)
           \<and> map Inr new = map edge_assign (phi_edge l bs)"
  using assms
proof (induction bs arbitrary: reg b)
  case Nil
  then show ?case by (simp add: phi_edge_def)
next
  case (Cons block bs)
  from Cons.prems(1) obtain reg1 where
    r1: "phi_insts (Insts block) reg = (None, reg1)" and r2: "phi_blocks bs reg1 = (None, reg')"
    by (auto split: prod.splits option.splits)
  from phi_insts_out [OF r1 Cons.prems(2)] obtain new1 where
    n1: "map_of reg1 l = Some (b\<lparr>out := out b @ new1\<rparr>)"
        "map Inr new1 = map edge_assign (concat (map (inst_edge l) (Insts block)))"
    by blast
  from Cons.IH [OF r2 n1(1)] obtain new2 where
    n2: "map_of reg' l = Some (b\<lparr>out := out b @ new1 @ new2\<rparr>)"
        "map Inr new2 = map edge_assign (phi_edge l bs)"
    by auto
  have "map Inr (new1 @ new2) = map edge_assign (phi_edge l (block # bs))"
    using n1(2) n2(2) by (simp add: phi_edge_def)
  with n2(1) show ?case by blast
qed

section \<open>The registry\<close>

lemma fold_delete_filter:
  "fold AList.delete ls reg = filter (\<lambda>kv. fst kv \<notin> set ls) reg"
proof (induction ls arbitrary: reg)
  case Nil
  then show ?case by simp
next
  case (Cons l ls)
  have "AList.delete l reg = filter (\<lambda>kv. fst kv \<noteq> l) reg"
    by (simp add: AList.delete_eq case_prod_unfold eq_commute)
  with Cons show ?case by (simp add: conj_commute)
qed

lemma fold_delete_distinct:
  "distinct (map fst reg) \<Longrightarrow> distinct (map fst (fold AList.delete ls reg))"
  by (simp add: fold_delete_filter distinct_map_filter)

lemma fold_delete_all:
  "fst ` set reg \<subseteq> set ls \<Longrightarrow> fold AList.delete ls reg = []"
  by (auto simp add: fold_delete_filter filter_empty_conv)

lemma fold_delete_keeps:
  "l \<in> fst ` set reg \<Longrightarrow> l \<notin> set ls \<Longrightarrow> l \<in> fst ` set (fold AList.delete ls reg)"
  by (auto simp add: fold_delete_filter)

lemma seed_keys:
  "fst ` set (seed bs reg) = fst ` set reg \<union> Name ` set bs"
  by (induction bs arbitrary: reg) (auto simp add: AList.dom_update)

lemma seed_distinct:
  "distinct (map fst reg) \<Longrightarrow> distinct (map fst (seed bs reg))"
  by (induction bs arbitrary: reg) (simp_all add: AList.distinct_update)

lemma update_set_subset:
  "set (AList.update k v al) \<subseteq> insert (k, v) (set al)"
  by (induction al) auto

lemma seed_empty_buffers:
  "\<forall>kv \<in> set reg. stmts (snd kv) = [] \<and> out (snd kv) = [] \<Longrightarrow>
   \<forall>kv \<in> set (seed bs reg). stmts (snd kv) = [] \<and> out (snd kv) = []"
proof (induction bs arbitrary: reg)
  case Nil
  then show ?case by simp
next
  case (Cons block bs)
  let ?b = "\<lparr>Name = Name block, Insts = Insts block, Term = Term block, stmts = [], out = []\<rparr>"
  have "\<forall>kv \<in> set (AList.update (Name block) ?b reg). stmts (snd kv) = [] \<and> out (snd kv) = []"
    using Cons.prems update_set_subset [of "Name block" ?b reg] by fastforce
  from Cons.IH [OF this] show ?case by simp
qed

section \<open>The loop over the primitives\<close>

lemma recover_append:
  "recover h (ps @ qs) reg =
     (case recover h ps reg of
        (Some e, reg') \<Rightarrow> (Some e, reg')
      | (None, reg') \<Rightarrow> recover h qs reg')"
  by (induction ps arbitrary: reg) (auto split: sum.splits)

lemma recover_distinct:
  "recover h ps reg = (r, reg') \<Longrightarrow> distinct (map fst reg) \<Longrightarrow> distinct (map fst reg')"
proof (induction ps arbitrary: reg)
  case Nil
  then show ?case by simp
next
  case (Cons p ps)
  show ?case
  proof (cases "prim h reg p")
    case (Inl e)
    with Cons.prems show ?thesis by simp
  next
    case (Inr block)
    let ?reg1 = "AList.update (Name block) block (fold AList.delete (map snd (Nodes p)) reg)"
    from Cons.prems(1) Inr have "recover h ps ?reg1 = (r, reg')" by simp
    moreover have "distinct (map fst ?reg1)"
      using Cons.prems(2) by (simp add: AList.distinct_update fold_delete_distinct)
    ultimately show ?thesis by (rule Cons.IH)
  qed
qed

lemma recover_unreferenced:
  "recover h ps reg = (r, reg') \<Longrightarrow> l \<in> fst ` set reg \<Longrightarrow> l \<notin> named_labels ps \<Longrightarrow>
   l \<in> fst ` set reg'"
proof (induction ps arbitrary: reg)
  case Nil
  then show ?case by simp
next
  case (Cons p ps)
  from Cons.prems(3) have l: "l \<notin> set (map snd (Nodes p))" "l \<notin> named_labels ps"
    by (auto simp add: named_labels_def)
  show ?case
  proof (cases "prim h reg p")
    case (Inl e)
    with Cons.prems show ?thesis by simp
  next
    case (Inr block)
    let ?reg1 = "AList.update (Name block) block (fold AList.delete (map snd (Nodes p)) reg)"
    from Cons.prems(1) Inr have "recover h ps ?reg1 = (r, reg')" by simp
    moreover have "l \<in> fst ` set ?reg1"
      using fold_delete_keeps [OF Cons.prems(2) l(1)] by (simp add: AList.dom_update)
    ultimately show ?thesis using l(2) by (rule Cons.IH)
  qed
qed

lemma recover_storage:
  assumes "reads_by_key (prim h)" and "list_all2 storage_permutation ps qs"
  shows "recover h qs reg = recover h ps reg"
  using assms(2)
proof (induction ps qs arbitrary: reg rule: list_all2_induct)
  case Nil
  then show ?case by simp
next
  case (Cons p ps q qs)
  from assms(1) Cons.hyps(1) have same: "prim h reg q = prim h reg p"
    by (simp add: reads_by_key_def)
  from Cons.hyps(1) have "set (Nodes q) = set (Nodes p)"
    by (auto simp add: storage_permutation_def dest: mset_eq_setD)
  then have "set (map snd (Nodes q)) = set (map snd (Nodes p))" by simp
  then have "fold AList.delete (map snd (Nodes q)) reg = fold AList.delete (map snd (Nodes p)) reg"
    by (simp only: fold_delete_filter)
  with same Cons.IH show ?case by (simp split: sum.splits)
qed

section \<open>The region synthesis of the specification\<close>

lemma members_storage:
  assumes "storage_permutation p q"
  shows "members q = members p"
proof -
  from assms have m: "mset (Nodes q) = mset (Nodes p)" and d: "distinct (map fst (Nodes p))"
    by (simp_all add: storage_permutation_def)
  from m have "mset (map fst (Nodes q)) = mset (map fst (Nodes p))" by (metis mset_map)
  with d have "distinct (map fst (Nodes q))" by (metis mset_eq_imp_distinct_iff)
  moreover from m have "set (Nodes q) = set (Nodes p)" by (rule mset_eq_setD)
  ultimately have "map_of (Nodes q) = map_of (Nodes p)"
    using d by (simp add: map_of_inject_set)
  moreover from m have "length (Nodes q) = length (Nodes p)" by (rule mset_eq_length)
  ultimately show ?thesis by (simp add: members_def)
qed

lemma prim_spec_reads_by_key: "reads_by_key prim_spec"
proof -
  have "prim_spec reg q = prim_spec reg p" if "storage_permutation p q" for reg p q
  proof -
    from that have m: "members q = members p" by (rule members_storage)
    from that have k: "Prim q = Prim p" by (simp add: storage_permutation_def)
    show ?thesis unfolding prim_spec_def m k by (rule refl)
  qed
  then show ?thesis by (simp add: reads_by_key_def)
qed

lemma resolve_missing:
  "l \<in> set ls \<Longrightarrow> l \<notin> fst ` set reg \<Longrightarrow>
   \<exists>l'. l' \<in> set ls \<and> l' \<notin> fst ` set reg \<and> resolve reg ls = Inl (UnresolvedReference l')"
proof (induction ls)
  case Nil
  then show ?case by simp
next
  case (Cons a ls)
  show ?case
  proof (cases "map_of reg a")
    case None
    then have "a \<notin> fst ` set reg" by (simp add: map_of_eq_None_iff)
    with None show ?thesis by auto
  next
    case (Some b)
    then have "a \<in> fst ` set reg" by (metis map_of_eq_None_iff option.distinct(1))
    with Cons.prems have "l \<in> set ls" by auto
    from Cons.IH [OF this Cons.prems(2)] Some show ?thesis by auto
  qed
qed

section \<open>funcDecl after the loops\<close>

lemma funcDecl_converged:
  assumes "goType h (FuncType (Sig_Ret f) (Sig_Params f)) = Inr (GoFuncType ps rs)"
    and "Blocks f \<noteq> []"
    and "phi_blocks (Blocks f) (seed (Blocks f) []) = (None, reg1)"
    and "recover h prims reg1 = (None, [(label, block)])"
  shows "funcDecl h d f prims =
     (case term_stmt h (Term block) of
        Inl e \<Rightarrow> (Inl e, \<lparr>blocks = [(label, block)]\<rparr>)
      | Inr s \<Rightarrow>
          (Inr \<lparr>decl_Name = global (func_Name f), decl_Type = GoFuncType ps rs,
                decl_Body = Some (stmts block @ [s])\<rparr>,
           \<lparr>blocks = [(label, block\<lparr>stmts := stmts block @ [s]\<rparr>)]\<rparr>))"
  using assms by (cases "Blocks f") (simp_all add: funcDecl_def split: sum.splits)

lemma funcDecl_not_converged:
  assumes "goType h (FuncType (Sig_Ret f) (Sig_Params f)) = Inr (GoFuncType ps rs)"
    and "Blocks f \<noteq> []"
    and "phi_blocks (Blocks f) (seed (Blocks f) []) = (None, reg1)"
    and "recover h prims reg1 = (None, reg2)"
    and "length reg2 \<noteq> 1"
  shows "funcDecl h d f prims = (Inl (recovery_failed (length reg2)), \<lparr>blocks = reg2\<rparr>)"
proof -
  from assms(5) have "(case reg2 of
                         [(label, block)] \<Rightarrow> X label block
                       | _ \<Rightarrow> Y) = Y" for X :: "string \<Rightarrow> basicBlock \<Rightarrow> (error + FuncDecl) \<times> decompiler" and Y
    by (cases reg2) (auto split: list.splits)
  with assms(1-4) show ?thesis
    by (cases "Blocks f") (simp_all add: funcDecl_def)
qed

text \<open>A seeded block has empty buffers.\<close>

lemma seed_lookup:
  assumes "l \<in> Name ` set bs"
  shows "\<exists>b. map_of (seed bs []) l = Some b \<and> stmts b = [] \<and> out b = []"
proof -
  from assms have "l \<in> fst ` set (seed bs [])" by (simp add: seed_keys)
  then obtain b where b: "map_of (seed bs []) l = Some b"
    by (metis map_of_eq_None_iff not_Some_eq)
  then have "(l, b) \<in> set (seed bs [])" by (rule map_of_SomeD)
  moreover have "\<forall>kv \<in> set (seed bs []). stmts (snd kv) = [] \<and> out (snd kv) = []"
    by (rule seed_empty_buffers) simp
  ultimately have "stmts b = [] \<and> out b = []" by fastforce
  with b show ?thesis by blast
qed

text \<open>
  The phi loop succeeds when every incoming label is in the mapping and every incoming
  value translates.
\<close>

lemma phi_incs_resolvable:
  "list_all (\<lambda>inc. inc_Pred inc \<in> fst ` set reg \<and> \<not> isl (value_expr (inc_X inc))) incs \<Longrightarrow>
   fst (phi_incs name incs reg) = None"
proof (induction incs arbitrary: reg)
  case Nil
  then show ?case by simp
next
  case (Cons inc incs)
  obtain x pred where inc: "inc = Incoming x pred" by (cases inc)
  from Cons.prems inc obtain rhs where rhs: "value_expr x = Inr rhs"
    by (cases "value_expr x") auto
  from Cons.prems inc obtain bp where bp: "map_of reg pred = Some bp"
    by (cases "map_of reg pred") (auto simp add: map_of_eq_None_iff)
  let ?reg1 = "AList.update pred (bp\<lparr>out := out bp @ [phi_assign name rhs]\<rparr>) reg"
  have "fst ` set ?reg1 = fst ` set reg"
    using bp by (auto simp add: AList.dom_update dest: map_of_SomeD  intro: rev_image_eqI)
  with Cons.prems have "list_all (\<lambda>inc. inc_Pred inc \<in> fst ` set ?reg1 \<and> \<not> isl (value_expr (inc_X inc))) incs"
    by simp
  from Cons.IH [OF this] inc rhs bp show ?case by simp
qed

lemma phi_insts_resolvable:
  "list_all (inst_resolvable ls) is \<Longrightarrow> set ls \<subseteq> fst ` set reg \<Longrightarrow>
   fst (phi_insts is reg) = None"
proof (induction "is" reg rule: phi_insts.induct)
  case (1 reg)
  then show ?case by simp
next
  case (2 name incs "is" reg)
  from "2.prems" have "list_all (\<lambda>inc. inc_Pred inc \<in> fst ` set reg \<and> \<not> isl (value_expr (inc_X inc))) incs"
    by (auto simp add: list_all_iff)
  then have f: "fst (phi_incs name incs reg) = None" by (rule phi_incs_resolvable)
  then obtain reg1 where r1: "phi_incs name incs reg = (None, reg1)"
    by (cases "phi_incs name incs reg") auto
  from phi_incs_keys [OF r1] have "fst ` set reg1 = fst ` set reg" by (metis set_map)
  with "2.prems" have "fst (phi_insts is reg1) = None"
    using "2.IH" [OF r1 [symmetric] refl] by simp
  with r1 show ?case by simp
next
  case (3 name opr xs "is" reg)
  then show ?case by simp
qed

lemma phi_blocks_resolvable:
  "list_all (\<lambda>b. list_all (inst_resolvable ls) (Insts b)) bs \<Longrightarrow> set ls \<subseteq> fst ` set reg \<Longrightarrow>
   fst (phi_blocks bs reg) = None"
proof (induction bs arbitrary: reg)
  case Nil
  then show ?case by simp
next
  case (Cons block bs)
  from Cons.prems(1) have "list_all (inst_resolvable ls) (Insts block)" by simp
  from this Cons.prems(2) have "fst (phi_insts (Insts block) reg) = None"
    by (rule phi_insts_resolvable)
  then obtain reg1 where r1: "phi_insts (Insts block) reg = (None, reg1)"
    by (cases "phi_insts (Insts block) reg") auto
  from phi_insts_keys [OF r1] have "fst ` set reg1 = fst ` set reg" by (metis set_map)
  with Cons.prems have "fst (phi_blocks bs reg1) = None"
    using Cons.IH by simp
  with r1 show ?case by simp
qed

section \<open>The phi resolver\<close>

text \<open>
  Claim C1, as the code has it. The resolver introduces no temporaries. When the loop
  over the phi instructions of a function succeeds, the \<open>out\<close> buffer of every block
  \<open>l\<close> is exactly the list of plain assignments \<^verbatim>\<open>_dest = value(incoming)\<close>, one for
  each incoming pair on the edge from \<open>l\<close>, in the declaration order of the blocks, of
  their phi instructions and of the pairs. Each right-hand side is the translation of
  the incoming value itself, so a right-hand side that names the destination of another
  phi of the same edge reads it after the earlier assignment of that edge.
\<close>

theorem phi_resolver_out:
  assumes "fst (phi_blocks (Blocks f) (seed (Blocks f) [])) = None"
    and "l \<in> Name ` set (Blocks f)"
  shows "\<exists>b. map_of (snd (phi_blocks (Blocks f) (seed (Blocks f) []))) l = Some b
           \<and> map Inr (out b) = map edge_assign (phi_edge l (Blocks f))"
proof -
  from assms(1) have run:
    "phi_blocks (Blocks f) (seed (Blocks f) []) =
       (None, snd (phi_blocks (Blocks f) (seed (Blocks f) [])))"
    by (metis prod.collapse)
  from seed_lookup [OF assms(2)] obtain b0 where
    b0: "map_of (seed (Blocks f) []) l = Some b0" "out b0 = []"
    by blast
  from phi_blocks_out [OF run b0(1)] b0(2) show ?thesis by auto
qed

theorem phi_resolver_out_witness:
  "fst (phi_blocks (Blocks swap_func) (seed (Blocks swap_func) [])) = None
   \<and> ''A'' \<in> Name ` set (Blocks swap_func)
   \<and> phi_edge ''A'' (Blocks swap_func) = [(''d1'', Const (ConstInt 32 1)), (''d2'', Local ''d1'')]
   \<and> (\<exists>b. map_of (snd (phi_blocks (Blocks swap_func) (seed (Blocks swap_func) []))) ''A'' = Some b
         \<and> map Inr (out b) = map edge_assign (phi_edge ''A'' (Blocks swap_func)))"
proof -
  have h1: "fst (phi_blocks (Blocks swap_func) (seed (Blocks swap_func) [])) = None"
    by code_simp
  have h2: "''A'' \<in> Name ` set (Blocks swap_func)"
    by (simp add: swap_func_def swap_blocks_def)
  have h3: "phi_edge ''A'' (Blocks swap_func) = [(''d1'', Const (ConstInt 32 1)), (''d2'', Local ''d1'')]"
    by code_simp
  from h1 h2 h3 phi_resolver_out [OF h1 h2] show ?thesis by blast
qed

text \<open>
  The claim as it was stated fails on the example of the specification: on the edge from
  \<open>A\<close> the buffer is \<^verbatim>\<open>_d1 = 1; _d2 = _d1\<close>, with no temporary, and run from a state
  where \<open>_d1\<close> is 5 it leaves 1 in \<open>_d2\<close>, the value the first assignment wrote.
\<close>

theorem phi_swap_reads_rebound:
  "map_option out (map_of (snd (phi_blocks (Blocks swap_func) (seed (Blocks swap_func) []))) ''A'') =
     Some [AssignStmt [Ident (NewIdent ''_d1'')] token_ASSIGN [BasicLit token_INT ''1''],
           AssignStmt [Ident (NewIdent ''_d2'')] token_ASSIGN [Ident (NewIdent ''_d1'')]]
   \<and> map_option (\<lambda>env. (env ''_d1'', env ''_d2''))
        (exec_assigns
           [AssignStmt [Ident (NewIdent ''_d1'')] token_ASSIGN [BasicLit token_INT ''1''],
            AssignStmt [Ident (NewIdent ''_d2'')] token_ASSIGN [Ident (NewIdent ''_d1'')]]
           ((\<lambda>x. 0)(''_d1'' := 5))) = Some (1, 1)"
  by code_simp

section \<open>The outcome of the recovery\<close>

text \<open>
  Claim C2, as the code has it. For a function with blocks whose phi loop and whose
  primitives all succeed, if the mapping is left with a number of blocks other than one,
  \<open>funcDecl\<close> returns the error of line 137, whose message gives that number and
  nothing else, and no declaration; the labels of the mapping are distinct, so the
  number is the number of remaining blocks; and every block label that no primitive
  names is still in the mapping.
\<close>

theorem funcDecl_reduction_incomplete:
  assumes "goType h (FuncType (Sig_Ret f) (Sig_Params f)) = Inr (GoFuncType ps rs)"
    and "Blocks f \<noteq> []"
    and "phi_blocks (Blocks f) (seed (Blocks f) []) = (None, reg1)"
    and "recover h prims reg1 = (None, reg2)"
    and "length reg2 \<noteq> 1"
  shows "funcDecl h d f prims = (Inl (recovery_failed (length reg2)), \<lparr>blocks = reg2\<rparr>)
         \<and> distinct (map fst reg2)
         \<and> Name ` set (Blocks f) - named_labels prims \<subseteq> fst ` set reg2"
proof -
  have "distinct (map fst (seed (Blocks f) []))" by (simp add: seed_distinct)
  with phi_blocks_keys [OF assms(3)] have d1: "distinct (map fst reg1)" by simp
  from recover_distinct [OF assms(4) d1] have d2: "distinct (map fst reg2)" .
  have "fst ` set reg1 = Name ` set (Blocks f)"
    using phi_blocks_keys [OF assms(3)] seed_keys [of "Blocks f" "[]"] by (metis empty_set image_empty set_map sup_bot_left)
  then have "Name ` set (Blocks f) - named_labels prims \<subseteq> fst ` set reg2"
    using recover_unreferenced [OF assms(4)] by auto
  with d2 funcDecl_not_converged [OF assms] show ?thesis by simp
qed

theorem funcDecl_reduction_incomplete_witness:
  "goType spec_helpers (FuncType (Sig_Ret chain_func) (Sig_Params chain_func)) = Inr (GoFuncType [] [])
   \<and> Blocks chain_func \<noteq> []
   \<and> fst (phi_blocks (Blocks chain_func) (seed (Blocks chain_func) [])) = None
   \<and> fst (recover spec_helpers [hd chain_prims] (seed (Blocks chain_func) [])) = None
   \<and> map fst (snd (recover spec_helpers [hd chain_prims] (seed (Blocks chain_func) []))) =
       [''c'', ''d'', ''rr'']
   \<and> fst (funcDecl spec_helpers newDecompiler chain_func [hd chain_prims]) = Inl (recovery_failed 3)
   \<and> map fst (blocks (snd (funcDecl spec_helpers newDecompiler chain_func [hd chain_prims]))) =
       [''c'', ''d'', ''rr'']
   \<and> Name ` set (Blocks chain_func) - named_labels [hd chain_prims] = {''c'', ''d''}"
proof -
  let ?reg1 = "seed (Blocks chain_func) []"
  let ?reg2 = "snd (recover spec_helpers [hd chain_prims] ?reg1)"
  have h1: "goType spec_helpers (FuncType (Sig_Ret chain_func) (Sig_Params chain_func)) = Inr (GoFuncType [] [])"
    by code_simp
  have h2: "Blocks chain_func \<noteq> []" by code_simp
  have h3: "phi_blocks (Blocks chain_func) ?reg1 = (None, ?reg1)" by code_simp
  have h4: "recover spec_helpers [hd chain_prims] ?reg1 = (None, ?reg2)" by code_simp
  have k: "map fst ?reg2 = [''c'', ''d'', ''rr'']" by code_simp
  then have n: "length ?reg2 = 3" by (metis length_map length_Cons list.size(3) numeral_3_eq_3)
  then have h5: "length ?reg2 \<noteq> 1" by simp
  have u: "Name ` set (Blocks chain_func) - named_labels [hd chain_prims] = {''c'', ''d''}"
    by (auto simp add: chain_func_def chain_prims_def named_labels_def)
  from funcDecl_reduction_incomplete [OF h1 h2 h3 h4 h5, of newDecompiler]
  have f: "funcDecl spec_helpers newDecompiler chain_func [hd chain_prims] =
             (Inl (recovery_failed (length ?reg2)), \<lparr>blocks = ?reg2\<rparr>)"
    by (rule conjunct1)
  from f n have f1: "fst (funcDecl spec_helpers newDecompiler chain_func [hd chain_prims]) =
      Inl (recovery_failed 3)"
    by (simp only: fst_conv)
  from f k have f2: "map fst (blocks (snd (funcDecl spec_helpers newDecompiler chain_func [hd chain_prims]))) =
      [''c'', ''d'', ''rr'']"
    by (simp only: snd_conv decompiler.simps)
  from h3 have h3': "fst (phi_blocks (Blocks chain_func) ?reg1) = None" by (simp only: fst_conv)
  from h4 have h4': "fst (recover spec_helpers [hd chain_prims] ?reg1) = None" by (metis fst_conv)
  from h1 h2 h3' h4' k f1 f2 u show ?thesis by (intro conjI)
qed

text \<open>
  The claim as it was stated fails for the function of two blocks and the empty list of
  primitives: the message ends with the count 2 and names neither \<open>entry\<close> nor \<open>exit\<close>,
  and the mapping holds the two labels that were never named and no reduced region.
\<close>

theorem funcDecl_reports_count_only:
  "funcDecl spec_helpers newDecompiler two_block_func [] =
     (Inl (Errorf ''control flow recovery failed; unable to reduce function into a single basic block; expected 1 basic block, got 2''),
      \<lparr>blocks = seed (Blocks two_block_func) []\<rparr>)
   \<and> map fst (seed (Blocks two_block_func) []) = [''entry'', ''exit'']"
  by code_simp

section \<open>Phi instructions and predecessors\<close>

text \<open>
  Claim C3, as the code has it. The phi loop never compares the incoming labels of a phi
  instruction with the predecessors of its block. Whenever every incoming label names
  some block of the function and every incoming value translates, the loop succeeds,
  whatever the terminators of the blocks are; the labels of the mapping are still the
  block labels of the function; and the \<open>out\<close> buffer of every block \<open>l\<close> holds exactly
  the assignments of the incoming pairs whose label is \<open>l\<close>, whether or not \<open>l\<close> is a
  predecessor of the block that owns the phi instruction.
\<close>

theorem phi_blocks_unchecked:
  assumes "phis_resolvable (Blocks f)"
    and "l \<in> Name ` set (Blocks f)"
  shows "fst (phi_blocks (Blocks f) (seed (Blocks f) [])) = None
         \<and> fst ` set (snd (phi_blocks (Blocks f) (seed (Blocks f) []))) = Name ` set (Blocks f)
         \<and> (\<exists>b. map_of (snd (phi_blocks (Blocks f) (seed (Blocks f) []))) l = Some b
               \<and> map Inr (out b) = map edge_assign (phi_edge l (Blocks f)))"
proof -
  let ?reg' = "snd (phi_blocks (Blocks f) (seed (Blocks f) []))"
  have "set (map Name (Blocks f)) \<subseteq> fst ` set (seed (Blocks f) [])"
    by (simp add: seed_keys)
  with assms(1) have ok: "fst (phi_blocks (Blocks f) (seed (Blocks f) [])) = None"
    unfolding phis_resolvable_def by (rule phi_blocks_resolvable)
  then have run: "phi_blocks (Blocks f) (seed (Blocks f) []) = (None, ?reg')"
    by (metis prod.collapse)
  from phi_blocks_keys [OF run] have "set (map fst ?reg') = set (map fst (seed (Blocks f) []))"
    by simp
  then have keys: "fst ` set ?reg' = Name ` set (Blocks f)"
    by (simp add: seed_keys)
  from seed_lookup [OF assms(2)] obtain b0 where
    b0: "map_of (seed (Blocks f) []) l = Some b0" "out b0 = []"
    by blast
  from phi_blocks_out [OF run b0(1)] b0(2)
  have "\<exists>b. map_of ?reg' l = Some b \<and> map Inr (out b) = map edge_assign (phi_edge l (Blocks f))"
    by auto
  with ok keys show ?thesis by (intro conjI)
qed

theorem phi_blocks_unchecked_witness:
  "phis_resolvable (Blocks mismatch_func)
   \<and> ''other'' \<in> Name ` set (Blocks mismatch_func)
   \<and> ''other'' \<notin> set (predecessors (Blocks mismatch_func) ''target'')
   \<and> map edge_assign (phi_edge ''other'' (Blocks mismatch_func)) =
       [Inr (AssignStmt [Ident (NewIdent ''_x'')] token_ASSIGN [BasicLit token_INT ''2''])]
   \<and> fst (phi_blocks (Blocks mismatch_func) (seed (Blocks mismatch_func) [])) = None
   \<and> fst ` set (snd (phi_blocks (Blocks mismatch_func) (seed (Blocks mismatch_func) []))) =
       Name ` set (Blocks mismatch_func)
   \<and> (\<exists>b. map_of (snd (phi_blocks (Blocks mismatch_func) (seed (Blocks mismatch_func) []))) ''other'' = Some b
         \<and> map Inr (out b) = map edge_assign (phi_edge ''other'' (Blocks mismatch_func)))"
proof -
  have h1: "phis_resolvable (Blocks mismatch_func)" by code_simp
  have h2: "''other'' \<in> Name ` set (Blocks mismatch_func)"
    by (simp add: mismatch_func_def mismatch_blocks_def)
  have h3: "''other'' \<notin> set (predecessors (Blocks mismatch_func) ''target'')" by code_simp
  have h4: "map edge_assign (phi_edge ''other'' (Blocks mismatch_func)) =
       [Inr (AssignStmt [Ident (NewIdent ''_x'')] token_ASSIGN [BasicLit token_INT ''2''])]"
    by code_simp
  note main = phi_blocks_unchecked [OF h1 h2]
  from main have c1: "fst (phi_blocks (Blocks mismatch_func) (seed (Blocks mismatch_func) [])) = None"
    by (rule conjunct1)
  from main have c2: "fst ` set (snd (phi_blocks (Blocks mismatch_func) (seed (Blocks mismatch_func) []))) =
       Name ` set (Blocks mismatch_func)"
    by (rule conjunct1 [OF conjunct2])
  from main have c3: "\<exists>b. map_of (snd (phi_blocks (Blocks mismatch_func) (seed (Blocks mismatch_func) []))) ''other'' = Some b
         \<and> map Inr (out b) = map edge_assign (phi_edge ''other'' (Blocks mismatch_func))"
    by (rule conjunct2 [OF conjunct2])
  from h1 h2 h3 h4 c1 c2 c3 show ?thesis by (intro conjI)
qed

text \<open>
  The claim as it was stated fails: the only predecessor of \<open>target\<close> is \<open>entry\<close>, its
  phi instruction has an incoming value from \<open>other\<close> too, and the loop succeeds, appends
  the assignment to the buffer of \<open>other\<close>, and a declaration is emitted.
\<close>

theorem phi_mismatch_accepted:
  "predecessors (Blocks mismatch_func) ''target'' = [''entry'']
   \<and> phi_edge ''other'' (Blocks mismatch_func) = [(''x'', Const (ConstInt 32 2))]
   \<and> fst (phi_blocks (Blocks mismatch_func) (seed (Blocks mismatch_func) [])) = None
   \<and> map_option out (map_of (snd (phi_blocks (Blocks mismatch_func) (seed (Blocks mismatch_func) []))) ''other'') =
       Some [AssignStmt [Ident (NewIdent ''_x'')] token_ASSIGN [BasicLit token_INT ''2'']]
   \<and> fst (funcDecl spec_helpers newDecompiler mismatch_func mismatch_prims) =
       Inr \<lparr>decl_Name = NewIdent ''h'', decl_Type = GoFuncType [] [TypeIdent ''int32''],
            decl_Body = Some
              [BlockStmt [AssignStmt [Ident (NewIdent ''_x'')] token_ASSIGN [BasicLit token_INT ''1''],
                          AssignStmt [Ident (NewIdent ''_x'')] token_ASSIGN [BasicLit token_INT ''2'']],
               EmptyStmt]\<rparr>"
  by code_simp

section \<open>Convergence\<close>

text \<open>
  Claim C4, as the code has it. For a function with blocks whose phi loop succeeds, if
  every primitive of the list succeeds and the last one names every label that is in the
  mapping when it is applied (in particular, a single primitive whose members are all
  the block labels), the mapping is left with exactly one block, the one that primitive
  returned, and \<open>funcDecl\<close> goes on to the body instead of failing with the error of
  line 137.
\<close>

theorem recover_last_covers:
  assumes "goType h (FuncType (Sig_Ret f) (Sig_Params f)) = Inr (GoFuncType gs rs)"
    and "Blocks f \<noteq> []"
    and "phi_blocks (Blocks f) (seed (Blocks f) []) = (None, reg1)"
    and "recover h ps reg1 = (None, reg2)"
    and "prim h reg2 p = Inr b"
    and "fst ` set reg2 \<subseteq> snd ` set (Nodes p)"
  shows "recover h (ps @ [p]) reg1 = (None, [(Name b, b)])
         \<and> funcDecl h d f (ps @ [p]) =
             (case term_stmt h (Term b) of
                Inl e \<Rightarrow> (Inl e, \<lparr>blocks = [(Name b, b)]\<rparr>)
              | Inr s \<Rightarrow>
                  (Inr \<lparr>decl_Name = global (func_Name f), decl_Type = GoFuncType gs rs,
                        decl_Body = Some (stmts b @ [s])\<rparr>,
                   \<lparr>blocks = [(Name b, b\<lparr>stmts := stmts b @ [s]\<rparr>)]\<rparr>))"
proof -
  from assms(6) have "fold AList.delete (map snd (Nodes p)) reg2 = []"
    by (simp add: fold_delete_all)
  with assms(4,5) have r: "recover h (ps @ [p]) reg1 = (None, [(Name b, b)])"
    by (simp add: recover_append)
  from r funcDecl_converged [OF assms(1-3) r] show ?thesis by simp
qed

theorem recover_last_covers_witness:
  "goType spec_helpers (FuncType (Sig_Ret chain_func) (Sig_Params chain_func)) = Inr (GoFuncType [] [])
   \<and> Blocks chain_func \<noteq> []
   \<and> fst (phi_blocks (Blocks chain_func) (seed (Blocks chain_func) [])) = None
   \<and> fst (recover spec_helpers [hd chain_prims] (seed (Blocks chain_func) [])) = None
   \<and> map fst (snd (recover spec_helpers [hd chain_prims] (seed (Blocks chain_func) []))) =
       [''c'', ''d'', ''rr'']
   \<and> prim spec_helpers (snd (recover spec_helpers [hd chain_prims] (seed (Blocks chain_func) [])))
        \<lparr>Prim = Sequence, Nodes = [(0, ''rr''), (1, ''c''), (2, ''d'')]\<rparr> =
       Inr \<lparr>Name = ''rrr'', Insts = [], Term = None, stmts = [BlockStmt [BlockStmt []]], out = []\<rparr>
   \<and> recover spec_helpers
        ([hd chain_prims] @ [\<lparr>Prim = Sequence, Nodes = [(0, ''rr''), (1, ''c''), (2, ''d'')]\<rparr>])
        (seed (Blocks chain_func) []) =
       (None, [(''rrr'', \<lparr>Name = ''rrr'', Insts = [], Term = None,
                           stmts = [BlockStmt [BlockStmt []]], out = []\<rparr>)])
   \<and> fst (funcDecl spec_helpers newDecompiler chain_func
        ([hd chain_prims] @ [\<lparr>Prim = Sequence, Nodes = [(0, ''rr''), (1, ''c''), (2, ''d'')]\<rparr>])) =
       Inr \<lparr>decl_Name = NewIdent ''c'', decl_Type = GoFuncType [] [],
            decl_Body = Some [BlockStmt [BlockStmt []], EmptyStmt]\<rparr>"
proof -
  let ?p = "\<lparr>Prim = Sequence, Nodes = [(0, ''rr''), (1, ''c''), (2, ''d'')]\<rparr>"
  let ?b = "\<lparr>Name = ''rrr'', Insts = [], Term = None, stmts = [BlockStmt [BlockStmt []]], out = []\<rparr>"
  let ?reg1 = "seed (Blocks chain_func) []"
  let ?reg2 = "snd (recover spec_helpers [hd chain_prims] ?reg1)"
  have h1: "goType spec_helpers (FuncType (Sig_Ret chain_func) (Sig_Params chain_func)) = Inr (GoFuncType [] [])"
    by code_simp
  have h2: "Blocks chain_func \<noteq> []" by code_simp
  have h3: "phi_blocks (Blocks chain_func) ?reg1 = (None, ?reg1)" by code_simp
  have h4: "recover spec_helpers [hd chain_prims] ?reg1 = (None, ?reg2)" by code_simp
  have k: "map fst ?reg2 = [''c'', ''d'', ''rr'']" by code_simp
  have h5: "prim spec_helpers ?reg2 ?p = Inr ?b" by code_simp
  have "set (map fst ?reg2) \<subseteq> snd ` set (Nodes ?p)" unfolding k by simp
  then have h6: "fst ` set ?reg2 \<subseteq> snd ` set (Nodes ?p)" by (simp only: set_map)
  have t: "term_stmt spec_helpers (Term ?b) = Inr EmptyStmt"
    by (simp add: spec_helpers_def)
  have g: "global (func_Name chain_func) = NewIdent ''c''" by code_simp
  note main = recover_last_covers [OF h1 h2 h3 h4 h5 h6, of newDecompiler]
  from main have r: "recover spec_helpers ([hd chain_prims] @ [?p]) ?reg1 = (None, [(Name ?b, ?b)])"
    by (rule conjunct1)
  then have r': "recover spec_helpers ([hd chain_prims] @ [?p]) ?reg1 = (None, [(''rrr'', ?b)])"
    by (simp only: BasicBlock.simps)
  from main have "funcDecl spec_helpers newDecompiler chain_func ([hd chain_prims] @ [?p]) =
      (case term_stmt spec_helpers (Term ?b) of
                Inl e \<Rightarrow> (Inl e, \<lparr>blocks = [(Name ?b, ?b)]\<rparr>)
              | Inr s \<Rightarrow>
                  (Inr \<lparr>decl_Name = global (func_Name chain_func), decl_Type = GoFuncType [] [],
                        decl_Body = Some (stmts ?b @ [s])\<rparr>,
                   \<lparr>blocks = [(Name ?b, ?b\<lparr>stmts := stmts ?b @ [s]\<rparr>)]\<rparr>))"
    by (rule conjunct2)
  then have f: "fst (funcDecl spec_helpers newDecompiler chain_func ([hd chain_prims] @ [?p])) =
       Inr \<lparr>decl_Name = NewIdent ''c'', decl_Type = GoFuncType [] [],
            decl_Body = Some [BlockStmt [BlockStmt []], EmptyStmt]\<rparr>"
    unfolding t g by simp
  from h3 have h3': "fst (phi_blocks (Blocks chain_func) ?reg1) = None" by (simp only: fst_conv)
  from h4 have h4': "fst (recover spec_helpers [hd chain_prims] ?reg1) = None" by (metis fst_conv)
  from h1 h2 h3' h4' k h5 r' f show ?thesis by (intro conjI)
qed

text \<open>
  The claim as it was stated fails: two sequences whose members \<open>a, b\<close> and \<open>c, d\<close>
  split the four labels of the function leave two blocks, one for each primitive, and
  \<open>funcDecl\<close> fails with the count 2.
\<close>

theorem partition_leaves_two_blocks:
  "map Name (Blocks chain_func) = [''a'', ''b'', ''c'', ''d'']
   \<and> map (map snd \<circ> Nodes) chain_prims = [[''a'', ''b''], [''c'', ''d'']]
   \<and> fst (funcDecl spec_helpers newDecompiler chain_func chain_prims) = Inl (recovery_failed 2)
   \<and> map fst (blocks (snd (funcDecl spec_helpers newDecompiler chain_func chain_prims))) = [''rr'', ''rrr'']"
  by code_simp

section \<open>Storage order\<close>

text \<open>
  Claim C5. Two lists of primitives that differ only in the order in which the members
  of each primitive are stored give the same result of \<open>funcDecl\<close>, declaration and
  decompiler alike, provided \<^verbatim>\<open>d.prim\<close> finds the members by key: the loop of
  \<open>funcDecl\<close> ranges over the stored order only to delete the labels.
\<close>

theorem funcDecl_storage_order:
  assumes "reads_by_key (prim h)" and "list_all2 storage_permutation ps qs"
  shows "funcDecl h d f qs = funcDecl h d f ps"
proof -
  have same: "recover h qs = recover h ps"
    by (rule ext) (rule recover_storage [OF assms])
  show ?thesis unfolding funcDecl_def same by (rule refl)
qed

theorem funcDecl_storage_order_witness:
  "reads_by_key (prim spec_helpers)
   \<and> list_all2 storage_permutation
        [\<lparr>Prim = Sequence, Nodes = [(0, ''A''), (1, ''B''), (2, ''target'')]\<rparr>]
        [\<lparr>Prim = Sequence, Nodes = [(2, ''target''), (0, ''A''), (1, ''B'')]\<rparr>]
   \<and> funcDecl spec_helpers newDecompiler swap_func
        [\<lparr>Prim = Sequence, Nodes = [(2, ''target''), (0, ''A''), (1, ''B'')]\<rparr>] =
      funcDecl spec_helpers newDecompiler swap_func
        [\<lparr>Prim = Sequence, Nodes = [(0, ''A''), (1, ''B''), (2, ''target'')]\<rparr>]
   \<and> isl (fst (funcDecl spec_helpers newDecompiler swap_func
        [\<lparr>Prim = Sequence, Nodes = [(0, ''A''), (1, ''B''), (2, ''target'')]\<rparr>])) = False"
proof -
  have h1: "reads_by_key (prim spec_helpers)"
    by (simp add: spec_helpers_def prim_spec_reads_by_key)
  have h2: "list_all2 storage_permutation
        [\<lparr>Prim = Sequence, Nodes = [(0, ''A''), (1, ''B''), (2, ''target'')]\<rparr>]
        [\<lparr>Prim = Sequence, Nodes = [(2, ''target''), (0, ''A''), (1, ''B'')]\<rparr>]"
    by (simp add: storage_permutation_def)
  have h3: "isl (fst (funcDecl spec_helpers newDecompiler swap_func
        [\<lparr>Prim = Sequence, Nodes = [(0, ''A''), (1, ''B''), (2, ''target'')]\<rparr>])) = False"
    by code_simp
  from h1 h2 h3 funcDecl_storage_order [OF h1 h2, of newDecompiler swap_func] show ?thesis by simp
qed

section \<open>Unresolved members\<close>

text \<open>
  Claim C6. When a member label of a primitive is absent from the mapping, the region
  synthesis fails with UnresolvedReference for an absent member label, and the loop over
  the primitives stops there with that error, the mapping unchanged.
\<close>

theorem prim_spec_unresolved:
  assumes "members p = Some ls" and "l \<in> set ls" and "l \<notin> fst ` set reg"
  shows "\<exists>l'. l' \<in> set ls \<and> l' \<notin> fst ` set reg
           \<and> prim_spec reg p = Inl (UnresolvedReference l')
           \<and> recover spec_helpers (p # ps) reg = (Some (UnresolvedReference l'), reg)"
proof -
  from resolve_missing [OF assms(2,3)] obtain l' where
    l': "l' \<in> set ls" "l' \<notin> fst ` set reg" "resolve reg ls = Inl (UnresolvedReference l')"
    by blast
  from l'(3) assms(1) have "prim_spec reg p = Inl (UnresolvedReference l')"
    by (simp add: prim_spec_def)
  with l'(1,2) show ?thesis by (auto simp add: spec_helpers_def)
qed

theorem prim_spec_unresolved_witness:
  "members \<lparr>Prim = Sequence, Nodes = [(1, ''gone''), (0, ''entry'')]\<rparr> = Some [''entry'', ''gone'']
   \<and> ''gone'' \<in> set [''entry'', ''gone'']
   \<and> ''gone'' \<notin> fst ` set (seed (Blocks two_block_func) [])
   \<and> prim_spec (seed (Blocks two_block_func) [])
         \<lparr>Prim = Sequence, Nodes = [(1, ''gone''), (0, ''entry'')]\<rparr> = Inl (UnresolvedReference ''gone'')
   \<and> recover spec_helpers [\<lparr>Prim = Sequence, Nodes = [(1, ''gone''), (0, ''entry'')]\<rparr>]
         (seed (Blocks two_block_func) []) =
       (Some (UnresolvedReference ''gone''), seed (Blocks two_block_func) [])"
proof -
  let ?p = "\<lparr>Prim = Sequence, Nodes = [(1, ''gone''), (0, ''entry'')]\<rparr>"
  let ?reg = "seed (Blocks two_block_func) []"
  have h1: "members ?p = Some [''entry'', ''gone'']" by code_simp
  have h2: "''gone'' \<in> set [''entry'', ''gone'']" by simp
  have h3: "''gone'' \<notin> fst ` set ?reg" by (simp add: seed_keys two_block_func_def)
  from prim_spec_unresolved [OF h1 h2 h3, of "[]"] obtain l' where
    l': "l' \<in> set [''entry'', ''gone'']" "l' \<notin> fst ` set ?reg"
        "prim_spec ?reg ?p = Inl (UnresolvedReference l')"
        "recover spec_helpers [?p] ?reg = (Some (UnresolvedReference l'), ?reg)"
    by blast
  have "''entry'' \<in> fst ` set ?reg" by (simp add: seed_keys two_block_func_def)
  with l'(1,2) have "l' = ''gone''" by auto
  with l' h1 h2 h3 show ?thesis by simp
qed

section \<open>The function body\<close>

lemma registry_single:
  assumes "map fst reg = [l]" and "map_of reg l = Some b"
  shows "reg = [(l, b)]"
proof -
  from assms(1) obtain kv where kv: "reg = [kv]" "fst kv = l" by (cases reg) auto
  with assms(2) show ?thesis by (cases kv) simp
qed

text \<open>
  Claim C7. When the recovery converges, the body is the \<open>stmts\<close> of the remaining
  block followed by the statement of its terminator (\<open>funcDecl_converged\<close>). The
  \<open>stmts\<close> of a block of the function start empty, and \<open>funcDecl\<close> never calls
  \<^verbatim>\<open>d.insts\<close> or \<^verbatim>\<open>d.stmts\<close>: for a function of exactly one block and an empty list
  of primitives the body is the statement of the terminator alone, and the statements
  of the block's instructions are not in it.
\<close>

theorem funcDecl_single_block:
  assumes "goType h (FuncType (Sig_Ret f) (Sig_Params f)) = Inr (GoFuncType gs rs)"
    and "Blocks f = [block]"
    and "fst (phi_blocks [block] (seed [block] [])) = None"
    and "term_stmt h (Term block) = Inr s"
  shows "fst (funcDecl h d f []) =
           Inr \<lparr>decl_Name = global (func_Name f), decl_Type = GoFuncType gs rs,
                decl_Body = Some [s]\<rparr>"
proof -
  let ?b0 = "\<lparr>Name = Name block, Insts = Insts block, Term = Term block, stmts = [], out = []\<rparr>"
  obtain reg1 where run: "phi_blocks [block] (seed [block] []) = (None, reg1)"
    using assms(3) by (cases "phi_blocks [block] (seed [block] [])") auto
  have seeded: "seed [block] [] = [(Name block, ?b0)]" by simp
  from phi_blocks_keys [OF run] seeded have keys: "map fst reg1 = [Name block]" by simp
  have "map_of (seed [block] []) (Name block) = Some ?b0" by simp
  from phi_blocks_out [OF run this] obtain new where
    "map_of reg1 (Name block) = Some (?b0\<lparr>out := out ?b0 @ new\<rparr>)" by blast
  with keys have reg1: "reg1 = [(Name block, ?b0\<lparr>out := new\<rparr>)]"
    by (simp add: registry_single)
  have rec: "recover h [] reg1 = (None, [(Name block, ?b0\<lparr>out := new\<rparr>)])"
    using reg1 by simp
  from assms(2) have ne: "Blocks f \<noteq> []" by simp
  from run assms(2) have run': "phi_blocks (Blocks f) (seed (Blocks f) []) = (None, reg1)" by simp
  from funcDecl_converged [OF assms(1) ne run' rec, of d] assms(4) show ?thesis by simp
qed

theorem funcDecl_single_block_witness:
  "goType spec_helpers (FuncType (Sig_Ret single_func) (Sig_Params single_func)) =
     Inr (GoFuncType [TypeIdent ''int32''] [TypeIdent ''int32''])
   \<and> Blocks single_func = [hd (Blocks single_func)]
   \<and> fst (phi_blocks [hd (Blocks single_func)] (seed [hd (Blocks single_func)] [])) = None
   \<and> term_stmt spec_helpers (Term (hd (Blocks single_func))) = Inr (ReturnStmt [Ident (NewIdent ''_x'')])
   \<and> insts spec_helpers (Insts (hd (Blocks single_func))) =
       Inr [AssignStmt [Ident (NewIdent ''_x'')] token_ASSIGN
              [OpExpr ''add'' [Ident (NewIdent ''_a''), BasicLit token_INT ''1'']]]
   \<and> fst (funcDecl spec_helpers newDecompiler single_func []) =
       Inr \<lparr>decl_Name = NewIdent ''f'',
            decl_Type = GoFuncType [TypeIdent ''int32''] [TypeIdent ''int32''],
            decl_Body = Some [ReturnStmt [Ident (NewIdent ''_x'')]]\<rparr>"
proof -
  have h1: "goType spec_helpers (FuncType (Sig_Ret single_func) (Sig_Params single_func)) =
     Inr (GoFuncType [TypeIdent ''int32''] [TypeIdent ''int32''])"
    by code_simp
  have h2: "Blocks single_func = [hd (Blocks single_func)]" by (simp add: single_func_def)
  have h3: "fst (phi_blocks [hd (Blocks single_func)] (seed [hd (Blocks single_func)] [])) = None"
    by code_simp
  have h4: "term_stmt spec_helpers (Term (hd (Blocks single_func))) = Inr (ReturnStmt [Ident (NewIdent ''_x'')])"
    by code_simp
  have h5: "insts spec_helpers (Insts (hd (Blocks single_func))) =
       Inr [AssignStmt [Ident (NewIdent ''_x'')] token_ASSIGN
              [OpExpr ''add'' [Ident (NewIdent ''_a''), BasicLit token_INT ''1'']]]"
    by code_simp
  have n: "global (func_Name single_func) = NewIdent ''f''" by code_simp
  from funcDecl_single_block [OF h1 h2 h3 h4, of newDecompiler] n h1 h2 h3 h4 h5
  show ?thesis by simp
qed

section \<open>Declarations without blocks\<close>

text \<open>
  Claim C8. For a function without blocks whose signature translates, \<open>funcDecl\<close>
  returns the declaration without a body, whatever the primitives and whatever
  \<^verbatim>\<open>d.insts\<close>, \<^verbatim>\<open>d.term\<close> and \<^verbatim>\<open>d.prim\<close> are, and leaves the decompiler as it was; the
  loop of \<open>ll2go\<close> appends that declaration after those of the earlier functions and
  goes on with the later ones.
\<close>

theorem funcDecl_no_blocks:
  assumes "goType h (FuncType (Sig_Ret f) (Sig_Params f)) = Inr (GoFuncType gs rs)"
    and "Blocks f = []"
    and "parsePrims (func_Name f) = Inr prims"
  shows "funcDecl h d f prims =
           (Inr \<lparr>decl_Name = global (func_Name f), decl_Type = GoFuncType gs rs,
                 decl_Body = None\<rparr>, d)
         \<and> ll2go_funcs h parsePrims (f # fs) d decls =
             ll2go_funcs h parsePrims fs d
               (decls @ [\<lparr>decl_Name = global (func_Name f), decl_Type = GoFuncType gs rs,
                          decl_Body = None\<rparr>])"
  using assms by (simp add: funcDecl_def)

theorem funcDecl_no_blocks_witness:
  "goType spec_helpers (FuncType (Sig_Ret decl_func) (Sig_Params decl_func)) =
     Inr (GoFuncType [StarExpr (TypeIdent ''int8'')] [TypeIdent ''int32''])
   \<and> Blocks decl_func = []
   \<and> funcDecl spec_helpers \<lparr>blocks = seed (Blocks swap_func) []\<rparr> decl_func chain_prims =
       (Inr \<lparr>decl_Name = NewIdent ''puts'',
             decl_Type = GoFuncType [StarExpr (TypeIdent ''int8'')] [TypeIdent ''int32''],
             decl_Body = None\<rparr>, \<lparr>blocks = seed (Blocks swap_func) []\<rparr>)
   \<and> ll2go spec_helpers (\<lambda>name. Inr []) [decl_func, single_func, decl_func] =
       ([\<lparr>decl_Name = NewIdent ''puts'',
          decl_Type = GoFuncType [StarExpr (TypeIdent ''int8'')] [TypeIdent ''int32''],
          decl_Body = None\<rparr>,
         \<lparr>decl_Name = NewIdent ''f'',
          decl_Type = GoFuncType [TypeIdent ''int32''] [TypeIdent ''int32''],
          decl_Body = Some [ReturnStmt [Ident (NewIdent ''_x'')]]\<rparr>,
         \<lparr>decl_Name = NewIdent ''puts'',
          decl_Type = GoFuncType [StarExpr (TypeIdent ''int8'')] [TypeIdent ''int32''],
          decl_Body = None\<rparr>], None)"
proof -
  let ?decl = "\<lparr>decl_Name = NewIdent ''puts'',
             decl_Type = GoFuncType [StarExpr (TypeIdent ''int8'')] [TypeIdent ''int32''],
             decl_Body = None\<rparr>"
  let ?feed = "\<lambda>name :: string. Inr [] :: error + primitive list"
  have h1: "goType spec_helpers (FuncType (Sig_Ret decl_func) (Sig_Params decl_func)) =
     Inr (GoFuncType [StarExpr (TypeIdent ''int8'')] [TypeIdent ''int32''])"
    by code_simp
  have h2: "Blocks decl_func = []" by (simp add: decl_func_def)
  have n: "global (func_Name decl_func) = NewIdent ''puts''" by code_simp
  have a: "funcDecl spec_helpers \<lparr>blocks = seed (Blocks swap_func) []\<rparr> decl_func chain_prims =
       (Inr ?decl, \<lparr>blocks = seed (Blocks swap_func) []\<rparr>)"
    using funcDecl_no_blocks [OF h1 h2, of "\<lambda>name. Inr chain_prims" chain_prims] n by simp
  have s: "funcDecl spec_helpers newDecompiler single_func [] =
      (Inr \<lparr>decl_Name = NewIdent ''f'',
          decl_Type = GoFuncType [TypeIdent ''int32''] [TypeIdent ''int32''],
          decl_Body = Some [ReturnStmt [Ident (NewIdent ''_x'')]]\<rparr>,
       \<lparr>blocks = [(''entry'', \<lparr>Name = ''entry'',
                 Insts = [InstOther ''x'' ''add'' [Local ''a'', Const (ConstInt 32 1)]],
                 Term = Some (TermRet (Some (Local ''x''))),
                 stmts = [ReturnStmt [Ident (NewIdent ''_x'')]], out = []\<rparr>)]\<rparr>)"
    by code_simp
  have "ll2go spec_helpers ?feed [decl_func, single_func, decl_func] =
          ll2go_funcs spec_helpers ?feed [single_func, decl_func] newDecompiler ([] @ [?decl])"
    unfolding ll2go_def
    using funcDecl_no_blocks [OF h1 h2, of ?feed "[]" newDecompiler "[single_func, decl_func]" "[]"] n
    by simp
  also have "\<dots> = ll2go_funcs spec_helpers ?feed [decl_func]
        \<lparr>blocks = [(''entry'', \<lparr>Name = ''entry'',
                 Insts = [InstOther ''x'' ''add'' [Local ''a'', Const (ConstInt 32 1)]],
                 Term = Some (TermRet (Some (Local ''x''))),
                 stmts = [ReturnStmt [Ident (NewIdent ''_x'')]], out = []\<rparr>)]\<rparr>
        [?decl, \<lparr>decl_Name = NewIdent ''f'',
          decl_Type = GoFuncType [TypeIdent ''int32''] [TypeIdent ''int32''],
          decl_Body = Some [ReturnStmt [Ident (NewIdent ''_x'')]]\<rparr>]"
    using s by simp
  also have "\<dots> = ([?decl, \<lparr>decl_Name = NewIdent ''f'',
          decl_Type = GoFuncType [TypeIdent ''int32''] [TypeIdent ''int32''],
          decl_Body = Some [ReturnStmt [Ident (NewIdent ''_x'')]]\<rparr>, ?decl], None)"
    using funcDecl_no_blocks [OF h1 h2, of ?feed "[]" _ "[]"] n
    by simp
  finally show ?thesis using h1 h2 a by simp
qed

section \<open>Constants and identifiers\<close>

text \<open>
  Claim C9, as the code has it. An integer constant (a boolean is one of width 1)
  becomes an integer literal whose text is the decimal text of its value, which reads
  back as that value; the width is not recorded. For a float, a null pointer, an array or a struct constant the
  translation panics.
\<close>

theorem value_expr_constant:
  "value_expr (Const (ConstInt w x)) = Inr (BasicLit token_INT (big_String x))
   \<and> literal_value (big_String x) = x
   \<and> value_expr (Const (ConstFloat s)) =
       Inl (Panic ''support for constant value *constant.Float not yet implemented'')
   \<and> value_expr (Const ConstNull) =
       Inl (Panic ''support for constant value *constant.Null not yet implemented'')
   \<and> value_expr (Const (ConstArray cs)) =
       Inl (Panic ''support for constant value *constant.Array not yet implemented'')
   \<and> value_expr (Const (ConstStruct cs)) =
       Inl (Panic ''support for constant value *constant.Struct not yet implemented'')"
  by (simp add: literal_value_big_String)

text \<open>
  The claim as it was stated fails: the translation of a float, of a null pointer and of
  an array constant panics, and the integer 1 of width 1 and of width 64 give the same
  literal.
\<close>

theorem value_expr_constant_fails:
  "value_expr (Const (ConstFloat ''1.5'')) =
     Inl (Panic ''support for constant value *constant.Float not yet implemented'')
   \<and> value_expr (Const ConstNull) =
     Inl (Panic ''support for constant value *constant.Null not yet implemented'')
   \<and> value_expr (Const (ConstArray [ConstInt 32 1, ConstInt 32 2])) =
     Inl (Panic ''support for constant value *constant.Array not yet implemented'')
   \<and> value_expr (Const (ConstInt 1 1)) = Inr (BasicLit token_INT ''1'')
   \<and> value_expr (Const (ConstInt 64 1)) = Inr (BasicLit token_INT ''1'')"
  by code_simp

text \<open>
  Claim C10, as the code has it. A local identifier is the IR name with \<open>_\<close> in front,
  always; the mapping of names to local identifiers is injective; no local identifier is
  a keyword of Go; a local identifier differs from the global identifier of the same IR
  name, and equals the global identifier of exactly the IR name that is its own name
  with \<open>_\<close> in front.
\<close>

theorem local_identifier:
  "local name = NewIdent (CHR ''_'' # name)
   \<and> (local a = local b \<longleftrightarrow> a = b)
   \<and> ident_Name (local name) \<notin> set go_keywords
   \<and> local name \<noteq> global name
   \<and> (local a = global g \<longleftrightarrow> g = CHR ''_'' # a)"
  by (auto simp add: local_def global_def go_keywords_def)

theorem local_identifier_witness:
  "local ''go'' = NewIdent (CHR ''_'' # ''go'')
   \<and> (local ''go'' = local ''x'' \<longleftrightarrow> ''go'' = ''x'')
   \<and> ident_Name (local ''go'') \<notin> set go_keywords
   \<and> local ''go'' \<noteq> global ''go''
   \<and> (local ''go'' = global ''_go'' \<longleftrightarrow> ''_go'' = CHR ''_'' # ''go'')"
  by (rule local_identifier)

text \<open>
  The claim as it was stated fails: the local \<open>x\<close> and the global \<open>_x\<close> are emitted as
  the same identifier.
\<close>

theorem local_global_collision:
  "local ''x'' = global ''_x''"
  by (simp add: local_def global_def)

end
